theory Spec2Isabelle
  imports Main "HOL-Library.Word" "HOL-Library.Sublist"
begin

section \<open>Strings\<close>

text \<open>
  Go strings and byte slices are byte sequences: \<^typ>\<open>string\<close>. The Chinese literals of
  the source are written as their UTF-8 bytes. \<open>strings.Contains\<close> searches a byte
  substring.
\<close>

fun HasPrefix :: "string \<Rightarrow> string \<Rightarrow> bool" where
  "HasPrefix s [] = True"
| "HasPrefix [] (p # ps) = False"
| "HasPrefix (c # cs) (p # ps) = (c = p \<and> HasPrefix cs ps)"

fun Contains :: "string \<Rightarrow> string \<Rightarrow> bool" where
  "Contains [] substr = HasPrefix [] substr"
| "Contains (c # cs) substr = (HasPrefix (c # cs) substr \<or> Contains cs substr)"

text \<open>The digit loop of \<open>FastStringBuilder.WriteInt\<close>: \<open>for i > 0 { ... i /= 10 }\<close>.\<close>

fun digits :: "nat \<Rightarrow> string" where
  "digits n = (if n = 0 then [] else digits (n div 10) @ [char_of (48 + n mod 10)])"

declare digits.simps [simp del]

text \<open>
  \<open>FastStringBuilder.WriteInt(i int64)\<close>: \<open>0\<close> is written as one digit; a negative value
  writes the sign and negates, which leaves the least int64 negative, so that the digit
  loop writes nothing for it.
\<close>

definition WriteInt :: "int \<Rightarrow> string" where
  "WriteInt i =
     (if i = 0 then ''0''
      else if i < 0 then (if i = - (2 ^ 63) then ''-'' else CHR ''-'' # digits (nat (- i)))
      else digits (nat i))"

text \<open>
  The verb \<open>%d\<close> of \<open>fmt\<close> on a Go \<open>int\<close>, which the errors made with \<open>fmt.Errorf\<close>
  use: the sign and the decimal digits of the magnitude, for every value.
\<close>

definition Sprintf_d :: "int \<Rightarrow> string" where
  "Sprintf_d i =
     (if i = 0 then ''0''
      else if i < 0 then CHR ''-'' # digits (nat (- i))
      else digits (nat i))"

section \<open>Error codes and error values\<close>

type_synonym ErrorCode = int

abbreviation (input) ErrCodeConnectionRefused :: ErrorCode where "ErrCodeConnectionRefused \<equiv> 1001"
abbreviation (input) ErrCodeConnectionTimeout :: ErrorCode where "ErrCodeConnectionTimeout \<equiv> 1002"
abbreviation (input) ErrCodeConnectionLost :: ErrorCode where "ErrCodeConnectionLost \<equiv> 1003"
abbreviation (input) ErrCodeHandshakeFailed :: ErrorCode where "ErrCodeHandshakeFailed \<equiv> 1004"
abbreviation (input) ErrCodeInvalidURL :: ErrorCode where "ErrCodeInvalidURL \<equiv> 1005"
abbreviation (input) ErrCodeTLSError :: ErrorCode where "ErrCodeTLSError \<equiv> 1006"
abbreviation (input) ErrCodeDNSError :: ErrorCode where "ErrCodeDNSError \<equiv> 1007"
abbreviation (input) ErrCodeMessageTooLarge :: ErrorCode where "ErrCodeMessageTooLarge \<equiv> 2001"
abbreviation (input) ErrCodeInvalidMessage :: ErrorCode where "ErrCodeInvalidMessage \<equiv> 2002"
abbreviation (input) ErrCodeSendTimeout :: ErrorCode where "ErrCodeSendTimeout \<equiv> 2003"
abbreviation (input) ErrCodeReceiveTimeout :: ErrorCode where "ErrCodeReceiveTimeout \<equiv> 2004"
abbreviation (input) ErrCodeEncodingError :: ErrorCode where "ErrCodeEncodingError \<equiv> 2005"
abbreviation (input) ErrCodeMaxRetriesExceeded :: ErrorCode where "ErrCodeMaxRetriesExceeded \<equiv> 3001"
abbreviation (input) ErrCodeRetryTimeout :: ErrorCode where "ErrCodeRetryTimeout \<equiv> 3002"
abbreviation (input) ErrCodeInvalidConfig :: ErrorCode where "ErrCodeInvalidConfig \<equiv> 4001"
abbreviation (input) ErrCodeMissingParameter :: ErrorCode where "ErrCodeMissingParameter \<equiv> 4002"
abbreviation (input) ErrCodeFileSystemError :: ErrorCode where "ErrCodeFileSystemError \<equiv> 5001"
abbreviation (input) ErrCodeMemoryError :: ErrorCode where "ErrCodeMemoryError \<equiv> 5002"
abbreviation (input) ErrCodeUnknownError :: ErrorCode where "ErrCodeUnknownError \<equiv> 5999"
abbreviation (input) ErrCodeSecurityViolation :: ErrorCode where "ErrCodeSecurityViolation \<equiv> 6001"
abbreviation (input) ErrCodeRateLimitExceeded :: ErrorCode where "ErrCodeRateLimitExceeded \<equiv> 6002"
abbreviation (input) ErrCodeSuspiciousActivity :: ErrorCode where "ErrCodeSuspiciousActivity \<equiv> 6003"

text \<open>\<open>ErrorCode.String\<close>: the lookup in the message table, with its default.\<close>

definition ErrorCode_String :: "ErrorCode \<Rightarrow> string" where
  "ErrorCode_String e =
     (if e = ErrCodeConnectionRefused then ([CHR 0xE8, CHR 0xBF, CHR 0x9E, CHR 0xE6, CHR 0x8E, CHR 0xA5, CHR 0xE8, CHR 0xA2, CHR 0xAB, CHR 0xE6, CHR 0x8B, CHR 0x92, CHR 0xE7, CHR 0xBB, CHR 0x9D])
      else if e = ErrCodeConnectionTimeout then ([CHR 0xE8, CHR 0xBF, CHR 0x9E, CHR 0xE6, CHR 0x8E, CHR 0xA5, CHR 0xE8, CHR 0xB6, CHR 0x85, CHR 0xE6, CHR 0x97, CHR 0xB6])
      else if e = ErrCodeConnectionLost then ([CHR 0xE8, CHR 0xBF, CHR 0x9E, CHR 0xE6, CHR 0x8E, CHR 0xA5, CHR 0xE4, CHR 0xB8, CHR 0xA2, CHR 0xE5, CHR 0xA4, CHR 0xB1])
      else if e = ErrCodeHandshakeFailed then ([CHR 0xE6, CHR 0x8F, CHR 0xA1, CHR 0xE6, CHR 0x89, CHR 0x8B, CHR 0xE5, CHR 0xA4, CHR 0xB1, CHR 0xE8, CHR 0xB4, CHR 0xA5])
      else if e = ErrCodeInvalidURL then ([CHR 0xE6, CHR 0x97, CHR 0xA0, CHR 0xE6, CHR 0x95, CHR 0x88] @ ''URL'')
      else if e = ErrCodeTLSError then (''TLS'' @ [CHR 0xE9, CHR 0x94, CHR 0x99, CHR 0xE8, CHR 0xAF, CHR 0xAF])
      else if e = ErrCodeDNSError then (''DNS'' @ [CHR 0xE8, CHR 0xA7, CHR 0xA3, CHR 0xE6, CHR 0x9E, CHR 0x90, CHR 0xE9, CHR 0x94, CHR 0x99, CHR 0xE8, CHR 0xAF, CHR 0xAF])
      else if e = ErrCodeMessageTooLarge then ([CHR 0xE6, CHR 0xB6, CHR 0x88, CHR 0xE6, CHR 0x81, CHR 0xAF, CHR 0xE8, CHR 0xBF, CHR 0x87, CHR 0xE5, CHR 0xA4, CHR 0xA7])
      else if e = ErrCodeInvalidMessage then ([CHR 0xE6, CHR 0x97, CHR 0xA0, CHR 0xE6, CHR 0x95, CHR 0x88, CHR 0xE6, CHR 0xB6, CHR 0x88, CHR 0xE6, CHR 0x81, CHR 0xAF])
      else if e = ErrCodeSendTimeout then ([CHR 0xE5, CHR 0x8F, CHR 0x91, CHR 0xE9, CHR 0x80, CHR 0x81, CHR 0xE8, CHR 0xB6, CHR 0x85, CHR 0xE6, CHR 0x97, CHR 0xB6])
      else if e = ErrCodeReceiveTimeout then ([CHR 0xE6, CHR 0x8E, CHR 0xA5, CHR 0xE6, CHR 0x94, CHR 0xB6, CHR 0xE8, CHR 0xB6, CHR 0x85, CHR 0xE6, CHR 0x97, CHR 0xB6])
      else if e = ErrCodeEncodingError then ([CHR 0xE7, CHR 0xBC, CHR 0x96, CHR 0xE7, CHR 0xA0, CHR 0x81, CHR 0xE9, CHR 0x94, CHR 0x99, CHR 0xE8, CHR 0xAF, CHR 0xAF])
      else if e = ErrCodeMaxRetriesExceeded then ([CHR 0xE8, CHR 0xB6, CHR 0x85, CHR 0xE8, CHR 0xBF, CHR 0x87, CHR 0xE6, CHR 0x9C, CHR 0x80, CHR 0xE5, CHR 0xA4, CHR 0xA7, CHR 0xE9, CHR 0x87, CHR 0x8D, CHR 0xE8, CHR 0xAF, CHR 0x95, CHR 0xE6, CHR 0xAC, CHR 0xA1, CHR 0xE6, CHR 0x95, CHR 0xB0])
      else if e = ErrCodeRetryTimeout then ([CHR 0xE9, CHR 0x87, CHR 0x8D, CHR 0xE8, CHR 0xAF, CHR 0x95, CHR 0xE8, CHR 0xB6, CHR 0x85, CHR 0xE6, CHR 0x97, CHR 0xB6])
      else if e = ErrCodeInvalidConfig then ([CHR 0xE6, CHR 0x97, CHR 0xA0, CHR 0xE6, CHR 0x95, CHR 0x88, CHR 0xE9, CHR 0x85, CHR 0x8D, CHR 0xE7, CHR 0xBD, CHR 0xAE])
      else if e = ErrCodeMissingParameter then ([CHR 0xE7, CHR 0xBC, CHR 0xBA, CHR 0xE5, CHR 0xB0, CHR 0x91, CHR 0xE5, CHR 0x8F, CHR 0x82, CHR 0xE6, CHR 0x95, CHR 0xB0])
      else if e = ErrCodeFileSystemError then ([CHR 0xE6, CHR 0x96, CHR 0x87, CHR 0xE4, CHR 0xBB, CHR 0xB6, CHR 0xE7, CHR 0xB3, CHR 0xBB, CHR 0xE7, CHR 0xBB, CHR 0x9F, CHR 0xE9, CHR 0x94, CHR 0x99, CHR 0xE8, CHR 0xAF, CHR 0xAF])
      else if e = ErrCodeMemoryError then ([CHR 0xE5, CHR 0x86, CHR 0x85, CHR 0xE5, CHR 0xAD, CHR 0x98, CHR 0xE9, CHR 0x94, CHR 0x99, CHR 0xE8, CHR 0xAF, CHR 0xAF])
      else if e = ErrCodeSecurityViolation then ([CHR 0xE5, CHR 0xAE, CHR 0x89, CHR 0xE5, CHR 0x85, CHR 0xA8, CHR 0xE8, CHR 0xBF, CHR 0x9D, CHR 0xE8, CHR 0xA7, CHR 0x84])
      else if e = ErrCodeRateLimitExceeded then ([CHR 0xE9, CHR 0xA2, CHR 0x91, CHR 0xE7, CHR 0x8E, CHR 0x87, CHR 0xE9, CHR 0x99, CHR 0x90, CHR 0xE5, CHR 0x88, CHR 0xB6, CHR 0xE8, CHR 0xB6, CHR 0x85, CHR 0xE5, CHR 0x87, CHR 0xBA])
      else if e = ErrCodeSuspiciousActivity then ([CHR 0xE5, CHR 0x8F, CHR 0xAF, CHR 0xE7, CHR 0x96, CHR 0x91, CHR 0xE6, CHR 0xB4, CHR 0xBB, CHR 0xE5, CHR 0x8A, CHR 0xA8])
      else ([CHR 0xE6, CHR 0x9C, CHR 0xAA, CHR 0xE7, CHR 0x9F, CHR 0xA5, CHR 0xE9, CHR 0x94, CHR 0x99, CHR 0xE8, CHR 0xAF, CHR 0xAF]))"

text \<open>
  Error values that the code compares by identity: the package's own \<open>errors.New\<close>
  values, the \<open>syscall\<close> and \<open>io\<close> values that \<open>isNetworkError\<close> switches on, and the
  two values that \<open>ctx.Err()\<close> returns.
\<close>

datatype sentinel =
    ErrInvalidURL | ErrConnectionFailed | ErrConnectionClosed | ErrInvalidConfig
  | ErrMaxRetriesReached | ErrContextCanceled | ErrHandshakeTimeout | ErrReadTimeout
  | ErrWriteTimeout
  | ECONNREFUSED | ECONNRESET | ETIMEDOUT | ENETUNREACH | EHOSTUNREACH
  | EOF | ErrUnexpectedEOF
  | Canceled | DeadlineExceeded

fun sentinel_text :: "sentinel \<Rightarrow> string" where
  "sentinel_text ErrInvalidURL = ([CHR 0xE6, CHR 0x97, CHR 0xA0, CHR 0xE6, CHR 0x95, CHR 0x88, CHR 0xE7, CHR 0x9A, CHR 0x84] @ '' WebSocket URL'')"
| "sentinel_text ErrConnectionFailed = (''WebSocket '' @ [CHR 0xE8, CHR 0xBF, CHR 0x9E, CHR 0xE6, CHR 0x8E, CHR 0xA5, CHR 0xE5, CHR 0xA4, CHR 0xB1, CHR 0xE8, CHR 0xB4, CHR 0xA5])"
| "sentinel_text ErrConnectionClosed = (''WebSocket '' @ [CHR 0xE8, CHR 0xBF, CHR 0x9E, CHR 0xE6, CHR 0x8E, CHR 0xA5, CHR 0xE5, CHR 0xB7, CHR 0xB2, CHR 0xE5, CHR 0x85, CHR 0xB3, CHR 0xE9, CHR 0x97, CHR 0xAD])"
| "sentinel_text ErrInvalidConfig = ([CHR 0xE6, CHR 0x97, CHR 0xA0, CHR 0xE6, CHR 0x95, CHR 0x88, CHR 0xE7, CHR 0x9A, CHR 0x84, CHR 0xE5, CHR 0xAE, CHR 0xA2, CHR 0xE6, CHR 0x88, CHR 0xB7, CHR 0xE7, CHR 0xAB, CHR 0xAF, CHR 0xE9, CHR 0x85, CHR 0x8D, CHR 0xE7, CHR 0xBD, CHR 0xAE])"
| "sentinel_text ErrMaxRetriesReached = ([CHR 0xE8, CHR 0xBE, CHR 0xBE, CHR 0xE5, CHR 0x88, CHR 0xB0, CHR 0xE6, CHR 0x9C, CHR 0x80, CHR 0xE5, CHR 0xA4, CHR 0xA7, CHR 0xE9, CHR 0x87, CHR 0x8D, CHR 0xE8, CHR 0xAF, CHR 0x95, CHR 0xE6, CHR 0xAC, CHR 0xA1, CHR 0xE6, CHR 0x95, CHR 0xB0])"
| "sentinel_text ErrContextCanceled = ([CHR 0xE6, CHR 0x93, CHR 0x8D, CHR 0xE4, CHR 0xBD, CHR 0x9C, CHR 0xE8, CHR 0xA2, CHR 0xAB, CHR 0xE5, CHR 0x8F, CHR 0x96, CHR 0xE6, CHR 0xB6, CHR 0x88])"
| "sentinel_text ErrHandshakeTimeout = ([CHR 0xE6, CHR 0x8F, CHR 0xA1, CHR 0xE6, CHR 0x89, CHR 0x8B, CHR 0xE8, CHR 0xB6, CHR 0x85, CHR 0xE6, CHR 0x97, CHR 0xB6])"
| "sentinel_text ErrReadTimeout = ([CHR 0xE8, CHR 0xAF, CHR 0xBB, CHR 0xE5, CHR 0x8F, CHR 0x96, CHR 0xE8, CHR 0xB6, CHR 0x85, CHR 0xE6, CHR 0x97, CHR 0xB6])"
| "sentinel_text ErrWriteTimeout = ([CHR 0xE5, CHR 0x86, CHR 0x99, CHR 0xE5, CHR 0x85, CHR 0xA5, CHR 0xE8, CHR 0xB6, CHR 0x85, CHR 0xE6, CHR 0x97, CHR 0xB6])"
| "sentinel_text ECONNREFUSED = ''connection refused''"
| "sentinel_text ECONNRESET = ''connection reset by peer''"
| "sentinel_text ETIMEDOUT = ''connection timed out''"
| "sentinel_text ENETUNREACH = ''network is unreachable''"
| "sentinel_text EHOSTUNREACH = ''no route to host''"
| "sentinel_text EOF = ''EOF''"
| "sentinel_text ErrUnexpectedEOF = ''unexpected EOF''"
| "sentinel_text Canceled = ''context canceled''"
| "sentinel_text DeadlineExceeded = ''context deadline exceeded''"

text \<open>
  A Go \<open>error\<close>, by what the code observes of it: its dynamic type (the type switches
  and assertions), its \<open>Error()\<close> text, and what \<open>Unwrap()\<close> gives.
  \<^item> \<open>ConnectionError Code Op URL Err Retry\<close> and \<open>RetryError Code Attempt MaxTry Err\<close>
    are the package's two structs;
  \<^item> \<open>OpError timeout text err\<close> is a \<open>*net.OpError\<close>: the result of \<open>Timeout()\<close>, its
    text, its \<open>Err\<close> field;
  \<^item> \<open>DNSError notFound timeout text\<close> is a \<open>*net.DNSError\<close>;
  \<^item> \<open>Wrapped text err\<close> is what \<open>fmt.Errorf\<close> with \<open>%w\<close> returns;
  \<^item> \<open>Opaque typ text\<close> is any other error: the name of its dynamic type (what \<open>%T\<close>
    prints) and its text.
\<close>

datatype goerror =
    Sentinel sentinel
  | ConnectionError ErrorCode string string "goerror option" bool
  | RetryError ErrorCode int int "goerror option"
  | OpError bool string "goerror option"
  | DNSError bool bool string
  | Wrapped string goerror
  | Opaque string string

text \<open>
  The pooled byte buffers are shared by the whole process, so what a buffer holds when
  it is handed out is an input: \<open>pool d i\<close> is byte \<open>i\<close> of the buffer that the string
  builder of an error at nesting depth \<open>d\<close> is handed. \<open>BufferPool.Get(size)\<close> returns
  \<open>buf[:size]\<close>, a slice of length \<open>size\<close> over such a buffer.
\<close>

type_synonym pool = "nat \<Rightarrow> nat \<Rightarrow> char"

definition Get :: "(nat \<Rightarrow> char) \<Rightarrow> nat \<Rightarrow> string" where
  "Get buf n = map buf [0..<n]"

text \<open>
  \<open>Error()\<close>. The two structs build their text in a \<open>FastStringBuilder\<close>, whose buffer
  is \<open>globalBufferPool.Get(128)\<close>: the builder appends behind the 128 bytes that the
  slice already has.
\<close>

fun Error :: "pool \<Rightarrow> nat \<Rightarrow> goerror \<Rightarrow> string" where
  "Error pool d (Sentinel s) = sentinel_text s"
| "Error pool d (ConnectionError code op url err retry) =
     Get (pool d) 128 @ ''['' @ WriteInt code @ (''] '' @ [CHR 0xE8, CHR 0xBF, CHR 0x9E, CHR 0xE6, CHR 0x8E, CHR 0xA5, CHR 0xE9, CHR 0x94, CHR 0x99, CHR 0xE8, CHR 0xAF, CHR 0xAF] @ '' ['') @ op @ ''] '' @ url @ '': ''
       @ ErrorCode_String code @ '' - ''
       @ (case err of None \<Rightarrow> [] | Some e \<Rightarrow> Error pool (Suc d) e)"
| "Error pool d (RetryError code attempt maxTry err) =
     Get (pool d) 128 @ ''['' @ WriteInt code @ (''] '' @ [CHR 0xE9, CHR 0x87, CHR 0x8D, CHR 0xE8, CHR 0xAF, CHR 0x95, CHR 0xE5, CHR 0xA4, CHR 0xB1, CHR 0xE8, CHR 0xB4, CHR 0xA5] @ '' ['') @ WriteInt attempt @ ''/''
       @ WriteInt maxTry @ '']: '' @ ErrorCode_String code @ '' - ''
       @ (case err of None \<Rightarrow> [] | Some e \<Rightarrow> Error pool (Suc d) e)"
| "Error pool d (OpError timeout text err) = text"
| "Error pool d (DNSError notFound timeout text) = text"
| "Error pool d (Wrapped text err) = text"
| "Error pool d (Opaque typ text) = text"

text \<open>\<open>Unwrap()\<close>, and \<open>errors.Is\<close> against one of the values compared by identity.\<close>

fun Unwrap :: "goerror \<Rightarrow> goerror option" where
  "Unwrap (ConnectionError code op url err retry) = err"
| "Unwrap (RetryError code attempt maxTry err) = err"
| "Unwrap (OpError timeout text err) = err"
| "Unwrap (Wrapped text err) = Some err"
| "Unwrap e = None"

fun errors_Is :: "goerror \<Rightarrow> sentinel \<Rightarrow> bool" where
  "errors_Is (Sentinel s) target = (s = target)"
| "errors_Is (ConnectionError code op url err retry) target =
     (case err of None \<Rightarrow> False | Some e \<Rightarrow> errors_Is e target)"
| "errors_Is (RetryError code attempt maxTry err) target =
     (case err of None \<Rightarrow> False | Some e \<Rightarrow> errors_Is e target)"
| "errors_Is (OpError timeout text err) target =
     (case err of None \<Rightarrow> False | Some e \<Rightarrow> errors_Is e target)"
| "errors_Is (DNSError notFound timeout text) target = False"
| "errors_Is (Wrapped text err) target = errors_Is err target"
| "errors_Is (Opaque typ text) target = False"

section \<open>Error classification\<close>

definition network_patterns :: "string list" where
  "network_patterns =
     [''connection refused'', ''i/o timeout'', ''broken pipe'', ''network is unreachable'',
      ''no such host'', ''unexpected EOF'', ''connection reset'', ''host is down'',
      ''network down'', ''protocol error'']"

definition containsNetworkErrorPattern :: "string \<Rightarrow> bool" where
  "containsNetworkErrorPattern errStr = list_ex (Contains errStr) network_patterns"

fun isNetworkError :: "pool \<Rightarrow> goerror option \<Rightarrow> bool" where
  "isNetworkError pool None = False"
| "isNetworkError pool (Some (Sentinel s)) =
     (if s \<in> {ECONNREFUSED, ECONNRESET, ETIMEDOUT, ENETUNREACH, EHOSTUNREACH, EOF, ErrUnexpectedEOF}
      then True
      else containsNetworkErrorPattern (sentinel_text s))"
| "isNetworkError pool (Some (OpError timeout text err)) =
     (if timeout then True else isNetworkError pool err)"
| "isNetworkError pool (Some (DNSError notFound timeout text)) = (notFound \<or> timeout)"
| "isNetworkError pool (Some e) = containsNetworkErrorPattern (Error pool 0 e)"

text \<open>\<open>inferErrorCode\<close>: the first matching case of the switch on the text.\<close>

definition inferErrorCode :: "pool \<Rightarrow> goerror option \<Rightarrow> ErrorCode" where
  "inferErrorCode pool err =
     (case err of
        None \<Rightarrow> ErrCodeUnknownError
      | Some e \<Rightarrow>
          (let errStr = Error pool 0 e in
           if Contains errStr ''connection refused'' then ErrCodeConnectionRefused
           else if Contains errStr ''timeout'' then ErrCodeConnectionTimeout
           else if Contains errStr ''no such host'' then ErrCodeDNSError
           else if Contains errStr ''tls'' then ErrCodeTLSError
           else if Contains errStr ''handshake'' then ErrCodeHandshakeFailed
           else if Contains errStr ''message too large'' then ErrCodeMessageTooLarge
           else if Contains errStr ''invalid'' then ErrCodeInvalidMessage
           else if Contains errStr ''broken pipe'' \<or> Contains errStr ''connection reset''
             then ErrCodeConnectionLost
           else ErrCodeUnknownError))"

text \<open>
  \<open>extractErrorCode\<close>: the type switch. Its callers pass the error they hold; a \<open>nil\<close>
  error reaches the default case.
\<close>

fun extractErrorCode :: "pool \<Rightarrow> goerror option \<Rightarrow> ErrorCode" where
  "extractErrorCode pool (Some (ConnectionError code op url err retry)) = code"
| "extractErrorCode pool (Some (RetryError code attempt maxTry err)) = code"
| "extractErrorCode pool err = inferErrorCode pool err"

section \<open>Recovery strategies\<close>

datatype RecoveryStrategy =
  RecoveryNone | RecoveryRetry | RecoveryReconnect | RecoveryReset | RecoveryFallback

text \<open>
  Times are nanoseconds since Go's zero \<open>time.Time\<close>, durations are nanoseconds; both
  are only compared, added and (once) doubled under a cap of 30 s, so they are \<^typ>\<open>int\<close>.
\<close>

abbreviation (input) Second :: int where "Second \<equiv> 1000000000"
abbreviation (input) Minute :: int where "Minute \<equiv> 60 * Second"

record DefaultErrorRecovery =
  maxRetries :: int
  retryDelay :: int
  recoveryHistory :: "string \<rightharpoonup> int"

definition NewDefaultErrorRecovery :: "int \<Rightarrow> int \<Rightarrow> DefaultErrorRecovery" where
  "NewDefaultErrorRecovery maxRetries' retryDelay' =
     \<lparr>maxRetries = maxRetries', retryDelay = retryDelay', recoveryHistory = Map.empty\<rparr>"

definition CanRecover :: "pool \<Rightarrow> goerror option \<Rightarrow> bool" where
  "CanRecover pl err =
     (case err of
        None \<Rightarrow> False
      | Some e \<Rightarrow>
          if isNetworkError pl err then True
          else if errors_Is e ErrConnectionClosed then True
          else if errors_Is e ErrConnectionFailed then True
          else if errors_Is e ErrHandshakeTimeout then True
          else if errors_Is e ErrReadTimeout then True
          else if errors_Is e ErrWriteTimeout then True
          else (case e of ConnectionError code op url err' retry \<Rightarrow> retry | _ \<Rightarrow> False))"

definition GetRecoveryStrategy :: "pool \<Rightarrow> goerror option \<Rightarrow> RecoveryStrategy" where
  "GetRecoveryStrategy pl err =
     (case err of
        None \<Rightarrow> RecoveryNone
      | Some e \<Rightarrow>
          if isNetworkError pl err then RecoveryReconnect
          else if errors_Is e ErrConnectionClosed then RecoveryReconnect
          else if errors_Is e ErrHandshakeTimeout then RecoveryRetry
          else if errors_Is e ErrReadTimeout \<or> errors_Is e ErrWriteTimeout then RecoveryReset
          else (case e of
                  ConnectionError code op url err' retry \<Rightarrow>
                    if code = ErrCodeConnectionRefused \<or> code = ErrCodeConnectionTimeout
                      then RecoveryReconnect
                    else if code = ErrCodeSendTimeout \<or> code = ErrCodeReceiveTimeout
                      then RecoveryRetry
                    else if code = ErrCodeMessageTooLarge then RecoveryFallback
                    else RecoveryRetry
                | _ \<Rightarrow> RecoveryRetry))"

text \<open>What \<open>fmt.Sprintf("%T", err)\<close> prints.\<close>

fun type_name :: "goerror \<Rightarrow> string" where
  "type_name (Sentinel s) =
     (if s \<in> {ECONNREFUSED, ECONNRESET, ETIMEDOUT, ENETUNREACH, EHOSTUNREACH} then ''syscall.Errno''
      else if s = DeadlineExceeded then ''context.deadlineExceededError''
      else ''*errors.errorString'')"
| "type_name (ConnectionError code op url err retry) = ''*main.ConnectionError''"
| "type_name (RetryError code attempt maxTry err) = ''*main.RetryError''"
| "type_name (OpError timeout text err) = ''*net.OpError''"
| "type_name (DNSError notFound timeout text) = ''*net.DNSError''"
| "type_name (Wrapped text err) = ''*fmt.wrapError''"
| "type_name (Opaque typ text) = typ"

text \<open>
  What an operation does to the world, in order. A \<open>select\<close> between \<open>ctx.Done()\<close> and
  \<open>time.After(d)\<close> is \<open>Slept who d\<close> when the timer fires first and \<open>Interrupted who d\<close> when
  the context is done first. \<open>Write conn messageType data locks\<close> is a call of
  \<open>WriteMessage\<close> or \<open>WriteControl\<close> on a connection, with the locks that the calling
  goroutine holds at that moment; \<open>Closed conn\<close> is a call of \<open>Close\<close>.
\<close>

datatype lock = Mu | WriteMu

datatype sleeper = RetryWait | Recovery

datatype event =
    Dialed
  | Slept sleeper int
  | Interrupted sleeper int
  | Write nat int string "lock set"
  | Closed nat

text \<open>
  The inputs of one operation: the clock; the bytes that the pooled buffers hold when
  they are handed out (\<open>env_pool\<close> for the string builders, \<open>env_send_buffer\<close> for the
  buffer that \<open>SendMessage\<close> copies the payload into); the outcome of a \<open>select\<close> between
  a context and a timer (\<open>None\<close>: the timer fires first; \<open>Some e\<close>: the context is done
  first and \<open>ctx.Err()\<close> is \<open>e\<close>), one for the select inside a recovery operation and one
  for the wait before the next dial; and what the transport answers: the connector's
  dial, setting the write deadline, writing a frame. \<open>env_perf_adjust\<close> is the scaling of a
  buffer size by the performance monitor's CPU and memory readings (floating point,
  factors \<open>0.8\<close> and \<open>0.9\<close>).

  Two answers of libraries are inputs as well. \<open>env_map_lower\<close> is what the standard
  library's \<open>strings.Map(unicode.ToLower, s)\<close> returns, which \<open>strings.ToLower\<close> calls for
  a text that holds a byte outside ASCII (the Unicode case tables belong to the Go
  toolchain that builds the program, not to the program). \<open>env_close_reply\<close> is the payload of the close frame that the WebSocket
  library writes on the connection, inside \<open>conn.ReadMessage\<close>, when the read fails
  because the peer's close frame arrived (\<open>None\<close>: the read failed for another reason and
  the library wrote nothing).
\<close>

record env =
  env_now :: int
  env_pool :: pool
  env_send_buffer :: "nat \<Rightarrow> char"
  env_recover_ctx :: "sentinel option"
  env_wait_ctx :: "sentinel option"
  env_dial :: "goerror + nat"
  env_deadline_err :: "goerror option"
  env_write_err :: "goerror option"
  env_perf_adjust :: "int \<Rightarrow> int"
  env_map_lower :: "string \<Rightarrow> string"
  env_close_reply :: "string option"

definition select_timer ::
  "sentinel option \<Rightarrow> sleeper \<Rightarrow> int \<Rightarrow> goerror option \<times> event list" where
  "select_timer done who d =
     (case done of
        Some e \<Rightarrow> (Some (Sentinel e), [Interrupted who d])
      | None \<Rightarrow> (None, [Slept who d]))"

definition retryOperation ::
  "env \<Rightarrow> DefaultErrorRecovery \<Rightarrow> goerror \<Rightarrow> goerror option \<times> DefaultErrorRecovery \<times> event list" where
  "retryOperation ev der err =
     (let errType = type_name err;
          retryCount = (case recoveryHistory der errType of None \<Rightarrow> 0 | Some n \<Rightarrow> n);
          der1 = der\<lparr>recoveryHistory := (recoveryHistory der)(errType \<mapsto> retryCount + 1)\<rparr>
      in if retryCount \<ge> maxRetries der1
         then (Some (Wrapped (([CHR 0xE9, CHR 0x87, CHR 0x8D, CHR 0xE8, CHR 0xAF, CHR 0x95, CHR 0xE6, CHR 0xAC, CHR 0xA1, CHR 0xE6, CHR 0x95, CHR 0xB0, CHR 0xE8, CHR 0xB6, CHR 0x85, CHR 0xE8, CHR 0xBF, CHR 0x87, CHR 0xE9, CHR 0x99, CHR 0x90, CHR 0xE5, CHR 0x88, CHR 0xB6] @ '' ('') @ Sprintf_d (maxRetries der1) @ ''): ''
                               @ Error (env_pool ev) 0 err) err), der1, [])
         else (case select_timer (env_recover_ctx ev) Recovery (retryDelay der1) of (r, evs) \<Rightarrow> (r, der1, evs)))"

definition reconnectOperation ::
  "env \<Rightarrow> DefaultErrorRecovery \<Rightarrow> goerror \<Rightarrow> goerror option \<times> DefaultErrorRecovery \<times> event list" where
  "reconnectOperation ev der err =
     (case select_timer (env_recover_ctx ev) Recovery (retryDelay der) of (r, evs) \<Rightarrow> (r, der, evs))"

definition resetOperation ::
  "env \<Rightarrow> DefaultErrorRecovery \<Rightarrow> goerror \<Rightarrow> goerror option \<times> DefaultErrorRecovery \<times> event list" where
  "resetOperation ev der err =
     (let der1 = der\<lparr>recoveryHistory := Map.empty\<rparr>
      in case select_timer (env_recover_ctx ev) Recovery Second of (r, evs) \<Rightarrow> (r, der1, evs))"

text \<open>
  \<open>fallbackOperation\<close>. The delay is a \<open>time.Duration\<close>, an int64 of nanoseconds, and
  doubling it wraps around. Go's \<open>/\<close> truncates towards zero and \<open>div\<close> rounds down; under
  \<open>max(_, 1)\<close> the two agree, since they differ only on negative values.
\<close>

definition fallbackOperation ::
  "env \<Rightarrow> DefaultErrorRecovery \<Rightarrow> goerror \<Rightarrow> goerror option \<times> DefaultErrorRecovery \<times> event list" where
  "fallbackOperation ev der err =
     (let der1 = der\<lparr>retryDelay := signed_take_bit 63 (retryDelay der * 2)\<rparr>;
          der2 = der1\<lparr>retryDelay := min (retryDelay der1) (30 * Second)\<rparr>;
          der3 = der2\<lparr>maxRetries := max (maxRetries der2 div 2) 1\<rparr>
      in (None, der3, []))"

definition Recover ::
  "env \<Rightarrow> DefaultErrorRecovery \<Rightarrow> goerror \<Rightarrow> goerror option \<times> DefaultErrorRecovery \<times> event list" where
  "Recover ev der err =
     (if \<not> CanRecover (env_pool ev) (Some err)
      then (Some (Wrapped (([CHR 0xE9, CHR 0x94, CHR 0x99, CHR 0xE8, CHR 0xAF, CHR 0xAF, CHR 0xE4, CHR 0xB8, CHR 0x8D, CHR 0xE5, CHR 0x8F, CHR 0xAF, CHR 0xE6, CHR 0x81, CHR 0xA2, CHR 0xE5, CHR 0xA4, CHR 0x8D] @ '': '') @ Error (env_pool ev) 0 err) err), der, [])
      else case GetRecoveryStrategy (env_pool ev) (Some err) of
             RecoveryRetry \<Rightarrow> retryOperation ev der err
           | RecoveryReconnect \<Rightarrow> reconnectOperation ev der err
           | RecoveryReset \<Rightarrow> resetOperation ev der err
           | RecoveryFallback \<Rightarrow> fallbackOperation ev der err
           | RecoveryNone \<Rightarrow> (Some (Opaque ''*errors.errorString'' (([CHR 0xE6, CHR 0x9C, CHR 0xAA, CHR 0xE7, CHR 0x9F, CHR 0xA5, CHR 0xE7, CHR 0x9A, CHR 0x84, CHR 0xE6, CHR 0x81, CHR 0xA2, CHR 0xE5, CHR 0xA4, CHR 0x8D, CHR 0xE7, CHR 0xAD, CHR 0x96, CHR 0xE7, CHR 0x95, CHR 0xA5] @ '': '') @ ([CHR 0xE6, CHR 0x97, CHR 0xA0, CHR 0xE6, CHR 0x81, CHR 0xA2, CHR 0xE5, CHR 0xA4, CHR 0x8D]))), der, []))"

section \<open>Message checks\<close>

text \<open>The frame types of the WebSocket library.\<close>

abbreviation (input) TextMessage :: int where "TextMessage \<equiv> 1"
abbreviation (input) BinaryMessage :: int where "BinaryMessage \<equiv> 2"
abbreviation (input) CloseMessage :: int where "CloseMessage \<equiv> 8"
abbreviation (input) PingMessage :: int where "PingMessage \<equiv> 9"
abbreviation (input) PongMessage :: int where "PongMessage \<equiv> 10"

record DefaultMessageProcessor =
  maxMessageSize :: int
  validateJSON :: bool

definition NewDefaultMessageProcessor :: "int \<Rightarrow> bool \<Rightarrow> DefaultMessageProcessor" where
  "NewDefaultMessageProcessor maxSize vj = \<lparr>maxMessageSize = maxSize, validateJSON = vj\<rparr>"

definition ValidateMessage :: "DefaultMessageProcessor \<Rightarrow> int \<Rightarrow> string \<Rightarrow> goerror option" where
  "ValidateMessage dmp messageType data =
     (if messageType \<notin> {TextMessage, BinaryMessage, PingMessage, PongMessage, CloseMessage}
      then Some (Opaque ''*errors.errorString'' (([CHR 0xE6, CHR 0x97, CHR 0xA0, CHR 0xE6, CHR 0x95, CHR 0x88, CHR 0xE7, CHR 0x9A, CHR 0x84, CHR 0xE6, CHR 0xB6, CHR 0x88, CHR 0xE6, CHR 0x81, CHR 0xAF, CHR 0xE7, CHR 0xB1, CHR 0xBB, CHR 0xE5, CHR 0x9E, CHR 0x8B] @ '': '') @ Sprintf_d messageType))
      else if int (length data) > maxMessageSize dmp
      then Some (Opaque ''*errors.errorString''
                  (([CHR 0xE6, CHR 0xB6, CHR 0x88, CHR 0xE6, CHR 0x81, CHR 0xAF, CHR 0xE5, CHR 0xA4, CHR 0xA7, CHR 0xE5, CHR 0xB0, CHR 0x8F] @ '' '') @ Sprintf_d (int (length data)) @ ('' '' @ [CHR 0xE8, CHR 0xB6, CHR 0x85, CHR 0xE8, CHR 0xBF, CHR 0x87, CHR 0xE9, CHR 0x99, CHR 0x90, CHR 0xE5, CHR 0x88, CHR 0xB6] @ '' '')
                     @ Sprintf_d (maxMessageSize dmp)))
      else None)"

definition ProcessMessage :: "pool \<Rightarrow> DefaultMessageProcessor \<Rightarrow> int \<Rightarrow> string \<Rightarrow> goerror option" where
  "ProcessMessage pl dmp messageType data =
     (case ValidateMessage dmp messageType data of
        Some err \<Rightarrow> Some (Wrapped (([CHR 0xE6, CHR 0xB6, CHR 0x88, CHR 0xE6, CHR 0x81, CHR 0xAF, CHR 0xE9, CHR 0xAA, CHR 0x8C, CHR 0xE8, CHR 0xAF, CHR 0x81, CHR 0xE5, CHR 0xA4, CHR 0xB1, CHR 0xE8, CHR 0xB4, CHR 0xA5] @ '': '') @ Error pl 0 err) err)
      | None \<Rightarrow> None)"

text \<open>
  \<open>strings.ToLower\<close>. A text of ASCII bytes alone takes the fast path, which adds
  \<open>'a' - 'A'\<close> to each byte from \<open>A\<close> to \<open>Z\<close>. A text with a byte of \<open>0x80\<close> or more is
  handed to \<open>strings.Map(unicode.ToLower, s)\<close>, which decodes it as UTF-8 and also maps
  letters outside ASCII (some of them to ASCII letters); its answer is the parameter
  \<open>mapLower\<close>.
\<close>

definition isASCII :: "string \<Rightarrow> bool" where
  "isASCII s = list_all (\<lambda>c. (of_char c :: nat) < 128) s"

definition ToLower :: "(string \<Rightarrow> string) \<Rightarrow> string \<Rightarrow> string" where
  "ToLower mapLower s =
     (if isASCII s
      then map (\<lambda>c. let n = (of_char c :: nat) in if 65 \<le> n \<and> n \<le> 90 then char_of (n + 32) else c) s
      else mapLower s)"

text \<open>
  \<open>SecurityChecker.CheckMessage\<close>: the size guard, then, for a text frame, the search of
  the lower-cased text for a blocked pattern.
\<close>

record SecurityChecker =
  sc_maxMessageSize :: int
  allowedOrigins :: "string list"
  blockedPatterns :: "string list"
  suspiciousCount :: "64 word"
  lastSecurityEvent :: int

definition NewSecurityChecker :: "int \<Rightarrow> SecurityChecker" where
  "NewSecurityChecker maxSize =
     \<lparr>sc_maxMessageSize = maxSize, allowedOrigins = [''*''],
      blockedPatterns = [''<script'', ''javascript:'', ''eval('', ''document.cookie'', ''window.location''],
      suspiciousCount = 0, lastSecurityEvent = 0\<rparr>"

definition recordSecurityEvent :: "int \<Rightarrow> SecurityChecker \<Rightarrow> SecurityChecker" where
  "recordSecurityEvent t sc = sc\<lparr>suspiciousCount := suspiciousCount sc + 1, lastSecurityEvent := t\<rparr>"

definition CheckMessage ::
  "env \<Rightarrow> SecurityChecker \<Rightarrow> int \<Rightarrow> string \<Rightarrow> goerror option \<times> SecurityChecker" where
  "CheckMessage ev sc messageType data =
     (if int (length data) > sc_maxMessageSize sc
      then (Some (Opaque ''*errors.errorString''
                   (([CHR 0xE6, CHR 0xB6, CHR 0x88, CHR 0xE6, CHR 0x81, CHR 0xAF, CHR 0xE5, CHR 0xA4, CHR 0xA7, CHR 0xE5, CHR 0xB0, CHR 0x8F, CHR 0xE8, CHR 0xB6, CHR 0x85, CHR 0xE8, CHR 0xBF, CHR 0x87, CHR 0xE5, CHR 0xAE, CHR 0x89, CHR 0xE5, CHR 0x85, CHR 0xA8, CHR 0xE9, CHR 0x99, CHR 0x90, CHR 0xE5, CHR 0x88, CHR 0xB6] @ '': '') @ Sprintf_d (int (length data)) @ '' > ''
                      @ Sprintf_d (sc_maxMessageSize sc))),
            recordSecurityEvent (env_now ev) sc)
      else if messageType = TextMessage
      then (case find (Contains (ToLower (env_map_lower ev) data)) (blockedPatterns sc) of
              Some pattern \<Rightarrow>
                (Some (Opaque ''*errors.errorString'' (([CHR 0xE6, CHR 0xA3, CHR 0x80, CHR 0xE6, CHR 0xB5, CHR 0x8B, CHR 0xE5, CHR 0x88, CHR 0xB0, CHR 0xE5, CHR 0x8F, CHR 0xAF, CHR 0xE7, CHR 0x96, CHR 0x91, CHR 0xE5, CHR 0x86, CHR 0x85, CHR 0xE5, CHR 0xAE, CHR 0xB9, CHR 0xE6, CHR 0xA8, CHR 0xA1, CHR 0xE5, CHR 0xBC, CHR 0x8F] @ '': '') @ pattern)),
                 recordSecurityEvent (env_now ev) sc)
            | None \<Rightarrow> (None, sc))
      else (None, sc))"

text \<open>\<open>RateLimiter.Allow\<close>: a sliding window, and a block of one window after a violation.\<close>

record RateLimiter =
  maxRequests :: int
  timeWindow :: int
  requests :: "int list"
  blockedUntil :: int
  violationCount :: "64 word"

definition NewRateLimiter :: "int \<Rightarrow> int \<Rightarrow> RateLimiter" where
  "NewRateLimiter maxReq window =
     \<lparr>maxRequests = maxReq, timeWindow = window, requests = [], blockedUntil = 0,
      violationCount = 0\<rparr>"

definition Allow :: "int \<Rightarrow> RateLimiter \<Rightarrow> bool \<times> RateLimiter" where
  "Allow t rl =
     (if t < blockedUntil rl then (False, rl)
      else
        let cutoff = t - timeWindow rl;
            rl1 = rl\<lparr>requests := filter (\<lambda>reqTime. reqTime > cutoff) (requests rl)\<rparr>
        in if int (length (requests rl1)) \<ge> maxRequests rl1
           then (False, rl1\<lparr>violationCount := violationCount rl1 + 1,
                            blockedUntil := t + timeWindow rl1\<rparr>)
           else (True, rl1\<lparr>requests := requests rl1 @ [t]\<rparr>))"

section \<open>Configuration, statistics and the client\<close>

text \<open>
  Go's \<open>int\<close> is taken as 64 bits wide. The fields that the code does arithmetic on are
  words (\<open>MaxRetries\<close>, the \<open>int32\<close> retry counter, the \<open>int64\<close> counters); sizes that
  are only compared are \<^typ>\<open>int\<close>.
\<close>

record ClientConfig =
  URL :: string
  MaxRetries :: "64 word"
  RetryDelay :: int
  HandshakeTimeout :: int
  ReadTimeout :: int
  WriteTimeout :: int
  PingInterval :: int
  DisableAutoPing :: bool
  MaxMessageSize :: int

definition NewDefaultConfig :: "string \<Rightarrow> ClientConfig" where
  "NewDefaultConfig url =
     \<lparr>URL = url, MaxRetries = 5, RetryDelay = 3 * Second, HandshakeTimeout = 15 * Second,
      ReadTimeout = 60 * Second, WriteTimeout = 5 * Second, PingInterval = 30 * Second,
      DisableAutoPing = False, MaxMessageSize = 32768\<rparr>"

datatype ConnectionState =
    StateDisconnected | StateConnecting | StateConnected | StateReconnecting
  | StateStopping | StateStopped

fun ConnectionState_String :: "ConnectionState \<Rightarrow> string" where
  "ConnectionState_String StateDisconnected = ([CHR 0xE6, CHR 0x9C, CHR 0xAA, CHR 0xE8, CHR 0xBF, CHR 0x9E, CHR 0xE6, CHR 0x8E, CHR 0xA5])"
| "ConnectionState_String StateConnecting = ([CHR 0xE8, CHR 0xBF, CHR 0x9E, CHR 0xE6, CHR 0x8E, CHR 0xA5, CHR 0xE4, CHR 0xB8, CHR 0xAD])"
| "ConnectionState_String StateConnected = ([CHR 0xE5, CHR 0xB7, CHR 0xB2, CHR 0xE8, CHR 0xBF, CHR 0x9E, CHR 0xE6, CHR 0x8E, CHR 0xA5])"
| "ConnectionState_String StateReconnecting = ([CHR 0xE9, CHR 0x87, CHR 0x8D, CHR 0xE8, CHR 0xBF, CHR 0x9E, CHR 0xE4, CHR 0xB8, CHR 0xAD])"
| "ConnectionState_String StateStopping = ([CHR 0xE5, CHR 0x81, CHR 0x9C, CHR 0xE6, CHR 0xAD, CHR 0xA2, CHR 0xE4, CHR 0xB8, CHR 0xAD])"
| "ConnectionState_String StateStopped = ([CHR 0xE5, CHR 0xB7, CHR 0xB2, CHR 0xE5, CHR 0x81, CHR 0x9C, CHR 0xE6, CHR 0xAD, CHR 0xA2])"

record ErrorTrendPoint =
  Timestamp :: int
  ErrorCount :: "64 word"
  ErrorCode :: ErrorCode

record ErrorStats =
  TotalErrors :: "64 word"
  ErrorsByCode :: "ErrorCode \<rightharpoonup> 64 word"
  LastError :: "goerror option"
  LastErrorTime :: int
  ErrorTrend :: "ErrorTrendPoint list"

record ConnectionStats =
  ConnectTime :: int
  LastMessageTime :: int
  MessagesSent :: "64 word"
  MessagesReceived :: "64 word"
  BytesSent :: "64 word"
  BytesReceived :: "64 word"
  ReconnectCount :: "64 word"
  Uptime :: int
  Errors :: ErrorStats

record PrometheusMetrics =
  ConnectionsActive :: "64 word"
  ReconnectionsTotal :: "64 word"
  MessagesSentTotal :: "64 word"
  MessagesReceivedTotal :: "64 word"
  BytesSentTotal :: "64 word"
  BytesReceivedTotal :: "64 word"
  ErrorsTotal :: "64 word"
  ErrorsByCodeTotal :: "(ErrorCode \<rightharpoonup> 64 word) option"

text \<open>
  The client. \<open>conn\<close> is the connection handle (\<open>None\<close> for \<open>nil\<close>), \<open>cancelled\<close> says
  whether \<open>cancel()\<close> has been called on the client's context. \<open>held\<close> is the set of the
  client's locks that the running goroutine holds, and \<open>trace\<close> is what the client has
  done to the world so far.
\<close>

record WebSocketClient =
  config :: ClientConfig
  conn :: "nat option"
  cancelled :: bool
  held :: "lock set"
  State :: ConnectionState
  RetryCount :: "32 word"
  SessionID :: string
  Stats :: ConnectionStats
  metrics :: PrometheusMetrics
  messageProcessor :: DefaultMessageProcessor
  errorRecovery :: DefaultErrorRecovery
  AutoRecovery :: bool
  AdaptiveBuffer :: bool
  securityChecker :: SecurityChecker
  rateLimiter :: RateLimiter
  trace :: "event list"

text \<open>
  \<open>NewWebSocketClient\<close>: \<open>createClientInstance\<close> and the four initialisation steps. The
  session id is random, so it is a parameter.
\<close>

definition NewWebSocketClient :: "ClientConfig \<Rightarrow> string \<Rightarrow> WebSocketClient" where
  "NewWebSocketClient cfg sid =
     \<lparr>config = cfg, conn = None, cancelled = False, held = {},
      State = StateDisconnected, RetryCount = 0, SessionID = sid,
      Stats = \<lparr>ConnectTime = 0, LastMessageTime = 0, MessagesSent = 0, MessagesReceived = 0,
               BytesSent = 0, BytesReceived = 0, ReconnectCount = 0, Uptime = 0,
               Errors = \<lparr>TotalErrors = 0, ErrorsByCode = Map.empty, LastError = None,
                         LastErrorTime = 0, ErrorTrend = []\<rparr>\<rparr>,
      metrics = \<lparr>ConnectionsActive = 0, ReconnectionsTotal = 0, MessagesSentTotal = 0,
                 MessagesReceivedTotal = 0, BytesSentTotal = 0, BytesReceivedTotal = 0,
                 ErrorsTotal = 0, ErrorsByCodeTotal = Some Map.empty\<rparr>,
      messageProcessor = NewDefaultMessageProcessor (MaxMessageSize cfg) False,
      errorRecovery = NewDefaultErrorRecovery (sint (MaxRetries cfg)) (RetryDelay cfg),
      AutoRecovery = True, AdaptiveBuffer = True,
      securityChecker = NewSecurityChecker (MaxMessageSize cfg),
      rateLimiter = NewRateLimiter 100 Minute,
      trace = []\<rparr>"

definition Lock :: "lock \<Rightarrow> WebSocketClient \<Rightarrow> WebSocketClient" where
  "Lock l c = c\<lparr>held := insert l (held c)\<rparr>"

definition Unlock :: "lock \<Rightarrow> WebSocketClient \<Rightarrow> WebSocketClient" where
  "Unlock l c = c\<lparr>held := held c - {l}\<rparr>"

definition emit :: "event list \<Rightarrow> WebSocketClient \<Rightarrow> WebSocketClient" where
  "emit evs c = c\<lparr>trace := trace c @ evs\<rparr>"

definition cancel :: "WebSocketClient \<Rightarrow> WebSocketClient" where
  "cancel c = c\<lparr>cancelled := True\<rparr>"

subsection \<open>State\<close>

definition GetState :: "WebSocketClient \<Rightarrow> ConnectionState" where
  "GetState c = State c"

definition setState :: "ConnectionState \<Rightarrow> WebSocketClient \<Rightarrow> WebSocketClient" where
  "setState s c = c\<lparr>State := s\<rparr>"

definition isConnected :: "WebSocketClient \<Rightarrow> bool" where
  "isConnected c = (GetState c = StateConnected)"

definition getConnSafely :: "WebSocketClient \<Rightarrow> nat option \<times> bool" where
  "getConnSafely c = (conn c, State c = StateConnected)"

subsection \<open>Statistics and the error book\<close>

text \<open>\<open>updateStats(_, dataLen, sent)\<close>, under \<open>c.mu\<close>.\<close>

definition updateStats :: "env \<Rightarrow> 64 word \<Rightarrow> bool \<Rightarrow> WebSocketClient \<Rightarrow> WebSocketClient" where
  "updateStats ev dataLen sent c =
     (let c1 = Lock Mu c;
          st = (Stats c1)\<lparr>LastMessageTime := env_now ev\<rparr>;
          m = metrics c1;
          c2 = (if sent
                then c1\<lparr>Stats := st\<lparr>MessagesSent := MessagesSent st + 1,
                                     BytesSent := BytesSent st + dataLen\<rparr>,
                        metrics := m\<lparr>MessagesSentTotal := MessagesSentTotal m + 1,
                                     BytesSentTotal := BytesSentTotal m + dataLen\<rparr>\<rparr>
                else c1\<lparr>Stats := st\<lparr>MessagesReceived := MessagesReceived st + 1,
                                     BytesReceived := BytesReceived st + dataLen\<rparr>,
                        metrics := m\<lparr>MessagesReceivedTotal := MessagesReceivedTotal m + 1,
                                     BytesReceivedTotal := BytesReceivedTotal m + dataLen\<rparr>\<rparr>)
      in Unlock Mu c2)"

text \<open>Reading a Go map gives the zero value for a missing key; \<open>m[k]++\<close> stores.\<close>

definition map_get :: "(ErrorCode \<rightharpoonup> 64 word) \<Rightarrow> ErrorCode \<Rightarrow> 64 word" where
  "map_get m k = (case m k of None \<Rightarrow> 0 | Some v \<Rightarrow> v)"

definition map_inc :: "(ErrorCode \<rightharpoonup> 64 word) \<Rightarrow> ErrorCode \<Rightarrow> (ErrorCode \<rightharpoonup> 64 word)" where
  "map_inc m k = m(k \<mapsto> map_get m k + 1)"

text \<open>
  \<open>recordError(err)\<close>, under \<open>c.mu\<close>: the totals, the last error, the count of the
  error's code, and the trend, cut to its last 1000 points.
\<close>

definition recordError :: "env \<Rightarrow> goerror option \<Rightarrow> WebSocketClient \<Rightarrow> WebSocketClient" where
  "recordError ev err c =
     (let c1 = Lock Mu c;
          es = Errors (Stats c1);
          es1 = es\<lparr>TotalErrors := TotalErrors es + 1, LastError := err,
                    LastErrorTime := env_now ev\<rparr>;
          errorCode = extractErrorCode (env_pool ev) err;
          es2 = es1\<lparr>ErrorsByCode := map_inc (ErrorsByCode es1) errorCode\<rparr>;
          m = metrics c1;
          m1 = m\<lparr>ErrorsTotal := ErrorsTotal m + 1\<rparr>;
          byCode = (case ErrorsByCodeTotal m1 of None \<Rightarrow> Map.empty | Some t \<Rightarrow> t);
          m2 = m1\<lparr>ErrorsByCodeTotal := Some (map_inc byCode errorCode)\<rparr>;
          trendPoint = \<lparr>Timestamp = env_now ev, ErrorCount = 1, ErrorCode = errorCode\<rparr>;
          es3 = es2\<lparr>ErrorTrend := ErrorTrend es2 @ [trendPoint]\<rparr>;
          es4 = (if length (ErrorTrend es3) > 1000
                 then es3\<lparr>ErrorTrend := drop (length (ErrorTrend es3) - 1000) (ErrorTrend es3)\<rparr>
                 else es3)
      in Unlock Mu (c1\<lparr>Stats := (Stats c1)\<lparr>Errors := es4\<rparr>, metrics := m2\<rparr>))"

text \<open>
  \<open>updatePrometheusMetrics\<close>, which \<open>GET /metrics\<close> runs: the metrics copy the statistics.
  The loop over \<open>Stats.Errors.ErrorsByCode\<close> assigns into \<open>metrics.ErrorsByCodeTotal\<close>
  without the nil check that \<open>recordError\<close> has: with a nil map and an entry to copy, the
  first assignment panics, after the scalar metrics have been stored.
\<close>

datatype panic = AssignmentToEntryInNilMap

definition updatePrometheusMetrics :: "WebSocketClient \<Rightarrow> panic option \<times> WebSocketClient" where
  "updatePrometheusMetrics c =
     (let st = Stats c;
          m = (metrics c)\<lparr>MessagesSentTotal := MessagesSent st,
                          MessagesReceivedTotal := MessagesReceived st,
                          BytesSentTotal := BytesSent st,
                          BytesReceivedTotal := BytesReceived st,
                          ReconnectionsTotal := ReconnectCount st,
                          ErrorsTotal := TotalErrors (Errors st),
                          ConnectionsActive := (if isConnected c then 1 else 0)\<rparr>
      in case ErrorsByCodeTotal m of
           Some byCode \<Rightarrow>
             (None, c\<lparr>metrics := m\<lparr>ErrorsByCodeTotal := Some (byCode ++ ErrorsByCode (Errors st))\<rparr>\<rparr>)
         | None \<Rightarrow>
             if ErrorsByCode (Errors st) = Map.empty then (None, c\<lparr>metrics := m\<rparr>)
             else (Some AssignmentToEntryInNilMap, c\<lparr>metrics := m\<rparr>))"

subsection \<open>Telemetry endpoints\<close>

text \<open>
  The handlers write a status code and a JSON body; the timestamp's rendering is a
  parameter.
\<close>

record response =
  status :: nat
  body :: string

definition handleHealth :: "string \<Rightarrow> WebSocketClient \<Rightarrow> response" where
  "handleHealth ts c =
     (let state = GetState c;
          unhealthy = (state = StateStopped \<or> state = StateStopping)
      in \<lparr>status = (if unhealthy then 503 else 200),
          body = (''{'' @ [CHR 0x22] @ ''status'' @ [CHR 0x22] @ '': '' @ [CHR 0x22]) @ (if unhealthy then ''unhealthy'' else ''healthy'')
                 @ ([CHR 0x22] @ '', '' @ [CHR 0x22] @ ''state'' @ [CHR 0x22] @ '': '' @ [CHR 0x22]) @ ConnectionState_String state
                 @ ([CHR 0x22] @ '', '' @ [CHR 0x22] @ ''session_id'' @ [CHR 0x22] @ '': '' @ [CHR 0x22]) @ SessionID c
                 @ ([CHR 0x22] @ '', '' @ [CHR 0x22] @ ''timestamp'' @ [CHR 0x22] @ '': '' @ [CHR 0x22]) @ ts @ ([CHR 0x22] @ ''}'')\<rparr>)"

definition handleReady :: "string \<Rightarrow> WebSocketClient \<Rightarrow> response" where
  "handleReady ts c =
     (let ready = isConnected c
      in \<lparr>status = (if \<not> ready then 503 else 200),
          body = (''{'' @ [CHR 0x22] @ ''ready'' @ [CHR 0x22] @ '': '') @ (if ready then ''true'' else ''false'')
                 @ ('', '' @ [CHR 0x22] @ ''state'' @ [CHR 0x22] @ '': '' @ [CHR 0x22]) @ ConnectionState_String (GetState c)
                 @ ([CHR 0x22] @ '', '' @ [CHR 0x22] @ ''session_id'' @ [CHR 0x22] @ '': '' @ [CHR 0x22]) @ SessionID c
                 @ ([CHR 0x22] @ '', '' @ [CHR 0x22] @ ''timestamp'' @ [CHR 0x22] @ '': '' @ [CHR 0x22]) @ ts @ ([CHR 0x22] @ ''}'')\<rparr>)"

subsection \<open>Error handling with recovery\<close>

text \<open>
  \<open>handleErrorWithRecovery\<close> runs the recovery under the client's context,
  \<open>attemptErrorRecovery\<close> under a context with the handshake timeout; which of context
  and timer wins is the input \<open>env_recover_ctx\<close>.
\<close>

definition run_recovery :: "env \<Rightarrow> goerror \<Rightarrow> WebSocketClient \<Rightarrow> WebSocketClient" where
  "run_recovery ev err c =
     (if AutoRecovery c \<and> CanRecover (env_pool ev) (Some err)
      then (case Recover ev (errorRecovery c) err of
              (recoveryErr, der, evs) \<Rightarrow> emit evs (c\<lparr>errorRecovery := der\<rparr>))
      else c)"

definition handleErrorWithRecovery :: "env \<Rightarrow> goerror \<Rightarrow> WebSocketClient \<Rightarrow> WebSocketClient" where
  "handleErrorWithRecovery ev err c = run_recovery ev err (recordError ev (Some err) c)"

definition attemptErrorRecovery :: "env \<Rightarrow> goerror \<Rightarrow> WebSocketClient \<Rightarrow> WebSocketClient" where
  "attemptErrorRecovery ev err c = run_recovery ev err c"

subsection \<open>Sending\<close>

abbreviation (input) SmallBufferSize :: int where "SmallBufferSize \<equiv> 1024"
abbreviation (input) MediumBufferSize :: int where "MediumBufferSize \<equiv> 4096"
abbreviation (input) LargeBufferSize :: int where "LargeBufferSize \<equiv> 16384"

definition calculateOptimalBufferSize :: "env \<Rightarrow> int \<Rightarrow> int" where
  "calculateOptimalBufferSize ev messageSize =
     (let baseSize = (if messageSize \<le> SmallBufferSize then SmallBufferSize
                      else if messageSize \<le> MediumBufferSize then MediumBufferSize
                      else if messageSize \<le> LargeBufferSize then LargeBufferSize
                      else messageSize);
          adjusted = env_perf_adjust ev baseSize
      in if adjusted < messageSize then messageSize else adjusted)"

text \<open>Go's \<open>copy(dst, src)\<close>: the bytes of \<open>src\<close> that fit, over the front of \<open>dst\<close>.\<close>

definition copy :: "string \<Rightarrow> string \<Rightarrow> string" where
  "copy dst src = take (length dst) src @ drop (length src) dst"

text \<open>
  The bytes that \<open>SendMessage\<close> hands to the transport: the payload itself when it is
  larger than the largest pooled buffer, and otherwise its copy in a pooled buffer,
  \<open>buf[:len(data)]\<close>. The buffer is at least as long as the payload.
\<close>

definition sendData :: "env \<Rightarrow> WebSocketClient \<Rightarrow> string \<Rightarrow> string" where
  "sendData ev c formattedData =
     (if AdaptiveBuffer c
      then (let bufferSize = calculateOptimalBufferSize ev (int (length formattedData))
            in if bufferSize \<le> LargeBufferSize
               then take (length formattedData)
                      (copy (Get (env_send_buffer ev) (nat bufferSize)) formattedData)
               else formattedData)
      else if int (length formattedData) \<le> LargeBufferSize
      then take (length formattedData)
             (copy (Get (env_send_buffer ev) (length formattedData)) formattedData)
      else formattedData)"

definition send_failure ::
  "env \<Rightarrow> ErrorCode \<Rightarrow> goerror \<Rightarrow> bool \<Rightarrow> WebSocketClient \<Rightarrow> goerror option \<times> WebSocketClient" where
  "send_failure ev code cause retry c =
     (let err = ConnectionError code ''send'' (URL (config c)) (Some cause) retry
      in (Some err, recordError ev (Some err) c))"

text \<open>
  \<open>SendMessage(messageType, data)\<close>: the rate limiter, the security checker, the
  connection, the message processor, the size, the write deadline; then, under
  \<open>c.writeMu\<close>, the write.
\<close>

definition SendMessage ::
  "env \<Rightarrow> int \<Rightarrow> string \<Rightarrow> WebSocketClient \<Rightarrow> goerror option \<times> WebSocketClient" where
  "SendMessage ev messageType data c =
     (case Allow (env_now ev) (rateLimiter c) of
        (False, rl) \<Rightarrow>
          send_failure ev ErrCodeRateLimitExceeded
            (Opaque ''*errors.errorString'' ([CHR 0xE5, CHR 0x8F, CHR 0x91, CHR 0xE9, CHR 0x80, CHR 0x81, CHR 0xE9, CHR 0xA2, CHR 0x91, CHR 0xE7, CHR 0x8E, CHR 0x87, CHR 0xE8, CHR 0xB6, CHR 0x85, CHR 0xE8, CHR 0xBF, CHR 0x87, CHR 0xE9, CHR 0x99, CHR 0x90, CHR 0xE5, CHR 0x88, CHR 0xB6])) True (c\<lparr>rateLimiter := rl\<rparr>)
      | (True, rl) \<Rightarrow>
     (case CheckMessage ev (securityChecker c) messageType data of
        (Some err, sc) \<Rightarrow>
          send_failure ev ErrCodeSecurityViolation err False
            (c\<lparr>rateLimiter := rl, securityChecker := sc\<rparr>)
      | (None, sc) \<Rightarrow>
     (let c1 = c\<lparr>rateLimiter := rl, securityChecker := sc\<rparr> in
      case getConnSafely c1 of
        (None, connected) \<Rightarrow>
          send_failure ev ErrCodeConnectionLost (Sentinel ErrConnectionClosed) False c1
      | (Some cn, connected) \<Rightarrow>
          if \<not> connected
          then send_failure ev ErrCodeConnectionLost (Sentinel ErrConnectionClosed) False c1
          else
     (case ValidateMessage (messageProcessor c1) messageType data of
        Some err \<Rightarrow> send_failure ev ErrCodeInvalidMessage err False c1
      | None \<Rightarrow>
     (let formattedData = data in
      if int (length formattedData) > MaxMessageSize (config c1)
      then send_failure ev ErrCodeMessageTooLarge
             (Opaque ''*errors.errorString''
                (([CHR 0xE6, CHR 0xB6, CHR 0x88, CHR 0xE6, CHR 0x81, CHR 0xAF, CHR 0xE5, CHR 0xA4, CHR 0xA7, CHR 0xE5, CHR 0xB0, CHR 0x8F] @ '' '') @ Sprintf_d (int (length formattedData)) @ ('' '' @ [CHR 0xE8, CHR 0xB6, CHR 0x85, CHR 0xE8, CHR 0xBF, CHR 0x87, CHR 0xE9, CHR 0x99, CHR 0x90, CHR 0xE5, CHR 0x88, CHR 0xB6] @ '' '')
                   @ Sprintf_d (MaxMessageSize (config c1)))) False c1
      else
     (case env_deadline_err ev of
        Some err \<Rightarrow> send_failure ev ErrCodeSendTimeout err False c1
      | None \<Rightarrow>
     (let c2 = Lock WriteMu c1;
          c3 = emit [Write cn messageType (sendData ev c2 formattedData) (held c2)] c2
      in case env_write_err ev of
           Some err \<Rightarrow>
             (let sendErr = ConnectionError (inferErrorCode (env_pool ev) (Some err)) ''send''
                              (URL (config c3)) (Some err) True
              in (Some sendErr, Unlock WriteMu (handleErrorWithRecovery ev sendErr c3)))
         | None \<Rightarrow>
             (None, Unlock WriteMu
                      (updateStats ev (of_nat (length formattedData)) True c3)))))))))"

definition SendText :: "env \<Rightarrow> string \<Rightarrow> WebSocketClient \<Rightarrow> goerror option \<times> WebSocketClient" where
  "SendText ev text c = SendMessage ev TextMessage text c"

text \<open>\<open>sendControlMessage\<close>: the heartbeat's pings and the pongs that answer a ping.\<close>

definition sendControlMessage ::
  "env \<Rightarrow> int \<Rightarrow> string \<Rightarrow> WebSocketClient \<Rightarrow> goerror option \<times> WebSocketClient" where
  "sendControlMessage ev messageType data c =
     (case getConnSafely c of
        (None, connected) \<Rightarrow> (Some (Opaque ''*errors.errorString'' ([CHR 0xE8, CHR 0xBF, CHR 0x9E, CHR 0xE6, CHR 0x8E, CHR 0xA5, CHR 0xE5, CHR 0xB7, CHR 0xB2, CHR 0xE5, CHR 0x85, CHR 0xB3, CHR 0xE9, CHR 0x97, CHR 0xAD])), c)
      | (Some cn, connected) \<Rightarrow>
          if \<not> connected then (Some (Opaque ''*errors.errorString'' ([CHR 0xE8, CHR 0xBF, CHR 0x9E, CHR 0xE6, CHR 0x8E, CHR 0xA5, CHR 0xE5, CHR 0xB7, CHR 0xB2, CHR 0xE5, CHR 0x85, CHR 0xB3, CHR 0xE9, CHR 0x97, CHR 0xAD])), c)
          else (let c1 = Lock WriteMu c;
                    c2 = emit [Write cn messageType data (held c1)] c1
                in (env_write_err ev, Unlock WriteMu c2)))"

subsection \<open>Receiving\<close>

definition processReceivedMessage ::
  "env \<Rightarrow> int \<Rightarrow> string \<Rightarrow> WebSocketClient \<Rightarrow> WebSocketClient" where
  "processReceivedMessage ev messageType message c =
     (let c1 = updateStats ev (of_nat (length message)) False c
      in case ProcessMessage (env_pool ev) (messageProcessor c1) messageType message of
           Some err \<Rightarrow> handleErrorWithRecovery ev err c1
         | None \<Rightarrow> c1)"

definition handleReadError :: "goerror \<Rightarrow> WebSocketClient \<Rightarrow> WebSocketClient" where
  "handleReadError err c = setState StateDisconnected c"

definition shouldContinueReading :: "WebSocketClient \<Rightarrow> bool" where
  "shouldContinueReading c =
     (if cancelled c then False
      else case getConnSafely c of
             (None, connected) \<Rightarrow> False
           | (Some cn, connected) \<Rightarrow> connected)"

text \<open>
  The loop of \<open>ReadMessages\<close> against a transport that delivers the given frames and
  then fails with \<open>err\<close>, and the deferred cleanup that runs when the loop is left. When
  the failing read is the arrival of the peer's close frame, the library has written its
  close frame in reply before \<open>conn.ReadMessage\<close> returns; the reading goroutine takes no
  lock of the client for it.
\<close>

definition failed_read :: "env \<Rightarrow> WebSocketClient \<Rightarrow> WebSocketClient" where
  "failed_read ev c =
     (case (env_close_reply ev, fst (getConnSafely c)) of
        (Some payload, Some cn) \<Rightarrow> emit [Write cn CloseMessage payload (held c)] c
      | _ \<Rightarrow> c)"

fun read_loop ::
  "env \<Rightarrow> (int \<times> string) list \<Rightarrow> goerror \<Rightarrow> WebSocketClient \<Rightarrow> WebSocketClient" where
  "read_loop ev [] err c =
     (if \<not> shouldContinueReading c then c else handleReadError err (failed_read ev c))"
| "read_loop ev ((messageType, message) # rest) err c =
     (if \<not> shouldContinueReading c then c
      else read_loop ev rest err (processReceivedMessage ev messageType message c))"

definition read_cleanup :: "WebSocketClient \<Rightarrow> WebSocketClient" where
  "read_cleanup c =
     (let c1 = Lock Mu (setState StateDisconnected c);
          c2 = (case conn c1 of
                  Some cn \<Rightarrow> (emit [Closed cn] c1)\<lparr>conn := None\<rparr>
                | None \<Rightarrow> c1)
      in Unlock Mu c2)"

definition ReadMessages ::
  "env \<Rightarrow> (int \<times> string) list \<Rightarrow> goerror \<Rightarrow> WebSocketClient \<Rightarrow> WebSocketClient" where
  "ReadMessages ev incoming err c = read_cleanup (read_loop ev incoming err c)"

subsection \<open>Connecting\<close>

text \<open>The close frame: status 1000 and the reason.\<close>

definition close_frame :: string where
  "close_frame = [CHR 0x03, CHR 0xE8] @ ([CHR 0xE5, CHR 0xAE, CHR 0xA2, CHR 0xE6, CHR 0x88, CHR 0xB7, CHR 0xE7, CHR 0xAB, CHR 0xAF, CHR 0xE4, CHR 0xB8, CHR 0xBB, CHR 0xE5, CHR 0x8A, CHR 0xA8, CHR 0xE5, CHR 0x85, CHR 0xB3, CHR 0xE9, CHR 0x97, CHR 0xAD])"

text \<open>\<open>DefaultConnector.Disconnect\<close>: the close frame, then \<open>Close\<close>.\<close>

definition Disconnect :: "nat \<Rightarrow> WebSocketClient \<Rightarrow> WebSocketClient" where
  "Disconnect cn c = emit [Write cn CloseMessage close_frame (held c), Closed cn] c"

definition setupConnection :: "env \<Rightarrow> nat \<Rightarrow> WebSocketClient \<Rightarrow> WebSocketClient" where
  "setupConnection ev newConn c =
     (let c1 = Lock Mu c;
          c2 = (case conn c1 of Some old \<Rightarrow> Disconnect old c1 | None \<Rightarrow> c1);
          c3 = c2\<lparr>conn := Some newConn\<rparr>;
          c4 = c3\<lparr>Stats := (Stats c3)\<lparr>ConnectTime := env_now ev\<rparr>\<rparr>;
          c5 = c4\<lparr>Stats := (Stats c4)\<lparr>ReconnectCount := ReconnectCount (Stats c4) + 1\<rparr>\<rparr>;
          c6 = setState StateConnected c5
      in Unlock Mu c6)"

definition handleConnectionError ::
  "env \<Rightarrow> goerror \<Rightarrow> WebSocketClient \<Rightarrow> goerror \<times> WebSocketClient" where
  "handleConnectionError ev err c =
     (let c1 = setState StateDisconnected c;
          c2 = recordError ev (Some err) c1;
          c3 = attemptErrorRecovery ev err c2
      in (ConnectionError (inferErrorCode (env_pool ev) (Some err)) ''connect''
            (URL (config c3)) (Some err) True, c3))"

definition Connect :: "env \<Rightarrow> WebSocketClient \<Rightarrow> goerror option \<times> WebSocketClient" where
  "Connect ev c =
     (let c1 = emit [Dialed] (setState StateConnecting c)
      in case env_dial ev of
           Inl err \<Rightarrow> (case handleConnectionError ev err c1 of (e, c2) \<Rightarrow> (Some e, c2))
         | Inr newConn \<Rightarrow> (None, setupConnection ev newConn c1))"

subsection \<open>The retry policy\<close>

abbreviation (input) MaxInt32 :: int where "MaxInt32 \<equiv> 2147483647"

text \<open>
  The guarded conversion from \<open>int\<close> to \<open>int32\<close> that both functions spell out: negative
  values give 0, values above \<open>math.MaxInt32\<close> give \<open>math.MaxInt32\<close>, and a value in
  between is printed and parsed back, which returns it.
\<close>

definition to_int32 :: "64 word \<Rightarrow> 32 word" where
  "to_int32 x =
     (if sint x < 0 then 0
      else if sint x > MaxInt32 then 2147483647
      else word_of_int (sint x))"

definition shouldStopRetrying :: "WebSocketClient \<Rightarrow> bool" where
  "shouldStopRetrying c =
     (let fastLimit = MaxRetries (config c) in
      if fastLimit = 0 then False
      else
        let totalLimit = MaxRetries (config c) * 2;
            retryCount = RetryCount c;
            totalLimitInt32 = to_int32 totalLimit
        in if sint totalLimit > 0 \<and> sint retryCount \<ge> sint totalLimitInt32 then True
           else False)"

definition calculateRetryDelay :: "WebSocketClient \<Rightarrow> int" where
  "calculateRetryDelay c =
     (let fastLimit = (if MaxRetries (config c) = 0 then 5 else MaxRetries (config c));
          totalLimit = MaxRetries (config c) * 2;
          retryCount = RetryCount c;
          fastLimitInt32 = to_int32 fastLimit
      in if sint retryCount \<le> sint fastLimitInt32 then 0
         else if totalLimit = 0 then RetryDelay (config c)
         else RetryDelay (config c))"

definition waitForRetry :: "env \<Rightarrow> WebSocketClient \<Rightarrow> bool \<times> WebSocketClient" where
  "waitForRetry ev c =
     (let retryDelay' = calculateRetryDelay c
      in case env_wait_ctx ev of
           Some e \<Rightarrow> (False, emit [Interrupted RetryWait retryDelay'] c)
         | None \<Rightarrow> (True, emit [Slept RetryWait retryDelay'] c))"

definition attemptConnection :: "env \<Rightarrow> WebSocketClient \<Rightarrow> bool \<times> WebSocketClient" where
  "attemptConnection ev c =
     (case Connect ev c of
        (Some err, c1) \<Rightarrow>
          (let c2 = c1\<lparr>RetryCount := RetryCount c1 + 1\<rparr>
           in if shouldStopRetrying c2 then (False, c2) else waitForRetry ev c2)
      | (None, c1) \<Rightarrow> (True, c1\<lparr>RetryCount := 0\<rparr>))"

subsection \<open>The supervisor\<close>

text \<open>
  One round of the loop of \<open>Start\<close>: the inputs of the connection attempt and, for the
  session that follows, the frames that the transport delivers and the error that ends
  the reading.
\<close>

record round =
  r_env :: env
  r_incoming :: "(int \<times> string) list"
  r_read_err :: goerror

text \<open>
  \<open>handleConnectedSession\<close> starts \<open>ReadMessages\<close> and waits for its end or for the
  context; here the reader runs to its end.
\<close>

definition handleConnectedSession :: "round \<Rightarrow> WebSocketClient \<Rightarrow> bool \<times> WebSocketClient" where
  "handleConnectedSession r c =
     (let c1 = ReadMessages (r_env r) (r_incoming r) (r_read_err r) c
      in (\<not> cancelled c1, c1))"

text \<open>
  \<open>Start\<close>, one round of inputs per iteration of its loop. The deferred \<open>c.cancel()\<close>
  runs when it returns. \<open>None\<close>: the inputs ran out before \<open>Start\<close> returned.
\<close>

fun Start :: "round list \<Rightarrow> WebSocketClient \<Rightarrow> WebSocketClient option" where
  "Start [] c = (if cancelled c then Some (cancel c) else None)"
| "Start (r # rs) c =
     (if cancelled c then Some (cancel c)
      else case attemptConnection (r_env r) c of
             (False, c1) \<Rightarrow> Some (cancel c1)
           | (True, c1) \<Rightarrow>
               (case handleConnectedSession r c1 of
                  (False, c2) \<Rightarrow> Some (cancel c2)
                | (True, c2) \<Rightarrow> Start rs c2))"

subsection \<open>Stopping\<close>

definition Stop :: "WebSocketClient \<Rightarrow> WebSocketClient" where
  "Stop c =
     (let c1 = cancel c;
          c2 = setState StateDisconnected c1;
          c3 = Lock Mu c2;
          c4 = (case conn c3 of
                  Some cn \<Rightarrow>
                    (emit [Write cn CloseMessage close_frame (held c3), Closed cn] c3)\<lparr>conn := None\<rparr>
                | None \<Rightarrow> c3)
      in Unlock Mu c4)"

section \<open>Operations\<close>

text \<open>
  The operations of the client that change its state, as one type: sending a frame, a
  control frame, one received frame, one connection attempt with and without the
  retry policy, a whole reading session, stopping, recording an error, and the refresh
  of the metrics that \<open>GET /metrics\<close> runs.
\<close>

datatype operation =
    OpSendMessage int string
  | OpSendControl int string
  | OpReceive int string
  | OpConnect
  | OpAttemptConnection
  | OpReadMessages "(int \<times> string) list" goerror
  | OpStop
  | OpRecordError "goerror option"
  | OpMetrics

fun exec :: "env \<Rightarrow> operation \<Rightarrow> WebSocketClient \<Rightarrow> WebSocketClient" where
  "exec ev (OpSendMessage messageType data) c = snd (SendMessage ev messageType data c)"
| "exec ev (OpSendControl messageType data) c = snd (sendControlMessage ev messageType data c)"
| "exec ev (OpReceive messageType message) c = processReceivedMessage ev messageType message c"
| "exec ev OpConnect c = snd (Connect ev c)"
| "exec ev OpAttemptConnection c = snd (attemptConnection ev c)"
| "exec ev (OpReadMessages incoming err) c = ReadMessages ev incoming err c"
| "exec ev OpStop c = Stop c"
| "exec ev (OpRecordError err) c = recordError ev err c"
| "exec ev OpMetrics c = snd (updatePrometheusMetrics c)"

section \<open>Concrete inputs\<close>

text \<open>
  A fresh process, whose pooled buffers are still zeroed; a client against an echo
  server, with the limits of the specification's scenarios; a transport that accepts
  everything. What the library makes of a text outside ASCII is left open
  (\<open>env_map_lower\<close> is unspecified): the texts sent below are ASCII, for which
  \<open>strings.ToLower\<close> does not ask it.
\<close>

definition zero_pool :: pool where
  "zero_pool = (\<lambda>d i. CHR 0x00)"

definition quiet_env :: env where
  "quiet_env =
     \<lparr>env_now = 63900000000 * Second, env_pool = zero_pool, env_send_buffer = (\<lambda>i. CHR 0x00),
      env_recover_ctx = None, env_wait_ctx = None, env_dial = Inr 1,
      env_deadline_err = None, env_write_err = None, env_perf_adjust = (\<lambda>n. n),
      env_map_lower = undefined, env_close_reply = None\<rparr>"

definition echo_config :: ClientConfig where
  "echo_config = NewDefaultConfig ''wss://echo.example/ws''"

text \<open>The client of the specification's oversized-send scenario.\<close>

definition small_config :: ClientConfig where
  "small_config = echo_config\<lparr>MaxMessageSize := 10\<rparr>"

definition connected_client :: "ClientConfig \<Rightarrow> WebSocketClient" where
  "connected_client cfg = snd (Connect quiet_env (NewWebSocketClient cfg ''session-1''))"

text \<open>
  What \<open>SendMessage\<close> returns when setting the write deadline fails on a closed
  connection, and an error of the same kind that wraps the package's \<open>ErrWriteTimeout\<close>.
\<close>

definition deadline_failure :: goerror where
  "deadline_failure =
     ConnectionError ErrCodeSendTimeout ''send'' ''wss://echo.example/ws''
       (Some (OpError False ''set tcp 127.0.0.1:8080: use of closed network connection''
                (Some (Opaque ''poll.errNetClosing'' ''use of closed network connection''))))
       False"

definition write_timeout_failure :: goerror where
  "write_timeout_failure =
     ConnectionError ErrCodeSendTimeout ''send'' ''wss://echo.example/ws''
       (Some (Sentinel ErrWriteTimeout)) False"

text \<open>
  The specification's scenario of exhausted retries: a connector whose every dial times
  out (the error that \<open>DefaultConnector.Connect\<close> returns then), with no cancellation.
  \<open>retry_events N R D k m\<close> lists what \<open>m\<close> more failing rounds do when \<open>k\<close> dials have
  failed so far: a dial, the recovery's sleep \<open>R\<close>, and the wait before the next dial,
  if any. \<open>retry_waits\<close> picks the waits of the retry policy out of a trace.
\<close>

definition dial_timeout :: goerror where
  "dial_timeout =
     Wrapped (([CHR 0xE8, CHR 0xBF, CHR 0x9E, CHR 0xE6, CHR 0x8E, CHR 0xA5, CHR 0xE5, CHR 0xA4, CHR 0xB1, CHR 0xE8, CHR 0xB4, CHR 0xA5] @ '': '') @ ''dial tcp 10.0.0.1:443: i/o timeout'')
       (OpError True ''dial tcp 10.0.0.1:443: i/o timeout''
          (Some (Opaque ''*poll.DeadlineExceededError'' ''i/o timeout'')))"

definition failing_env :: env where
  "failing_env = quiet_env\<lparr>env_dial := Inl dial_timeout\<rparr>"

definition failing_round :: round where
  "failing_round = \<lparr>r_env = failing_env, r_incoming = [], r_read_err = Sentinel EOF\<rparr>"

definition retry_config :: "64 word \<Rightarrow> ClientConfig" where
  "retry_config n = echo_config\<lparr>MaxRetries := n\<rparr>"

fun retry_events :: "int \<Rightarrow> int \<Rightarrow> int \<Rightarrow> nat \<Rightarrow> nat \<Rightarrow> event list" where
  "retry_events N R D k 0 = []"
| "retry_events N R D k (Suc m) =
     [Dialed, Slept Recovery R]
     @ (if 2 * N \<le> int k + 1 then []
        else Slept RetryWait (if int k + 1 \<le> N then 0 else D) # retry_events N R D (Suc k) m)"

fun retry_waits :: "event list \<Rightarrow> int list" where
  "retry_waits [] = []"
| "retry_waits (Slept RetryWait d # es) = d # retry_waits es"
| "retry_waits (e # es) = retry_waits es"

text \<open>The scenario's client with \<open>k\<close> failed dials behind it.\<close>

definition exhausted_client :: "32 word \<Rightarrow> WebSocketClient" where
  "exhausted_client k = (NewWebSocketClient (retry_config 2) ''session-1'')\<lparr>RetryCount := k\<rparr>"

section \<open>The counters of the statistics\<close>


definition counters :: "WebSocketClient \<Rightarrow> int list" where
  "counters c =
     [sint (MessagesSent (Stats c)), sint (MessagesReceived (Stats c)),
      sint (BytesSent (Stats c)), sint (BytesReceived (Stats c)),
      sint (ReconnectCount (Stats c)), sint (TotalErrors (Errors (Stats c)))]"





definition grows :: "int \<Rightarrow> WebSocketClient \<Rightarrow> WebSocketClient \<Rightarrow> bool" where
  "grows w c c' = list_all2 (\<lambda>x y. x \<le> y \<and> y \<le> x + w) (counters c) (counters c')"



section \<open>The error counts of the metrics\<close>

text \<open>
  The value that \<open>GET /metrics\<close> has for \<open>errors_by_code_total{code}\<close>: the entry of
  \<open>metrics.ErrorsByCodeTotal\<close>, and 0 where the map has none.
\<close>

definition errors_by_code_total :: "WebSocketClient \<Rightarrow> ErrorCode \<Rightarrow> 64 word" where
  "errors_by_code_total c code =
     (case ErrorsByCodeTotal (metrics c) of None \<Rightarrow> 0 | Some byCode \<Rightarrow> map_get byCode code)"

section \<open>Properties\<close>

subsection \<open>What the bookkeeping steps leave alone\<close>

lemma Stats_bookkeeping [simp]:
  "Stats (Lock l c) = Stats c" "Stats (Unlock l c) = Stats c" "Stats (emit evs c) = Stats c"
  "Stats (setState s c) = Stats c" "Stats (cancel c) = Stats c"
  by (simp_all add: Lock_def Unlock_def emit_def setState_def cancel_def)

lemma State_bookkeeping [simp]:
  "State (Lock l c) = State c" "State (Unlock l c) = State c" "State (emit evs c) = State c"
  "State (setState s c) = s" "State (cancel c) = State c"
  by (simp_all add: Lock_def Unlock_def emit_def setState_def cancel_def)

lemma trace_bookkeeping [simp]:
  "trace (Lock l c) = trace c" "trace (Unlock l c) = trace c"
  "trace (emit evs c) = trace c @ evs"
  "trace (setState s c) = trace c" "trace (cancel c) = trace c"
  by (simp_all add: Lock_def Unlock_def emit_def setState_def cancel_def)

lemma conn_bookkeeping [simp]:
  "conn (Lock l c) = conn c" "conn (Unlock l c) = conn c" "conn (emit evs c) = conn c"
  "conn (setState s c) = conn c" "conn (cancel c) = conn c"
  by (simp_all add: Lock_def Unlock_def emit_def setState_def cancel_def)

lemma held_bookkeeping [simp]:
  "held (Lock l c) = insert l (held c)" "held (Unlock l c) = held c - {l}"
  "held (emit evs c) = held c" "held (setState s c) = held c" "held (cancel c) = held c"
  by (simp_all add: Lock_def Unlock_def emit_def setState_def cancel_def)

subsection \<open>Evaluation on the concrete inputs\<close>

lemma Get_zero_pool: "Get (zero_pool d) n = replicate n (CHR 0x00)"
  by (simp add: Get_def zero_pool_def map_replicate_const)

lemma Contains_replicate:
  "p \<noteq> [] \<Longrightarrow> hd p \<noteq> c \<Longrightarrow> Contains (replicate n c @ s) p = Contains s p"
  by (induction n) (cases p; simp)+

lemma WriteInt_2003: "WriteInt 2003 = ''2003''"
  by code_simp

lemma connected_client_simps:
  "State (connected_client cfg) = StateConnected"
  "conn (connected_client cfg) = Some 1"
  "config (connected_client cfg) = cfg"
  "held (connected_client cfg) = {}"
  "trace (connected_client cfg) = [Dialed]"
  "AutoRecovery (connected_client cfg) = True"
  "AdaptiveBuffer (connected_client cfg) = True"
  "securityChecker (connected_client cfg) = NewSecurityChecker (MaxMessageSize cfg)"
  "messageProcessor (connected_client cfg) = NewDefaultMessageProcessor (MaxMessageSize cfg) False"
  "rateLimiter (connected_client cfg) = NewRateLimiter 100 Minute"
  by (simp_all add: connected_client_def Connect_def quiet_env_def setupConnection_def Let_def
      NewWebSocketClient_def Lock_def Unlock_def emit_def setState_def)

lemma connected_client_Stats:
  "MessagesSent (Stats (connected_client cfg)) = 0"
  "BytesSent (Stats (connected_client cfg)) = 0"
  "ErrorsByCode (Errors (Stats (connected_client cfg))) = Map.empty"
  by (simp_all add: connected_client_def Connect_def quiet_env_def setupConnection_def Let_def
      NewWebSocketClient_def)

lemma small_config_simps:
  "MaxMessageSize small_config = 10" "URL small_config = ''wss://echo.example/ws''"
  by (simp_all add: small_config_def echo_config_def NewDefaultConfig_def)

lemma digits_harmless:
  "find (Contains (ToLower mapLower ''0123456789'')) (blockedPatterns (NewSecurityChecker 10)) = None"
  by code_simp

lemma Allow_connected_client:
  "Allow (env_now quiet_env) (rateLimiter (connected_client cfg))
     = (True, (NewRateLimiter 100 Minute)\<lparr>requests := [env_now quiet_env]\<rparr>)"
  by (simp add: connected_client_simps Allow_def NewRateLimiter_def quiet_env_def Let_def)

subsection \<open>What the steps of an operation change\<close>

lemma recordError_frame [simp]:
  "State (recordError ev err c) = State c"
  "trace (recordError ev err c) = trace c"
  "conn (recordError ev err c) = conn c"
  "held (recordError ev err c) = held c - {Mu}"
  "config (recordError ev err c) = config c"
  "cancelled (recordError ev err c) = cancelled c"
  "RetryCount (recordError ev err c) = RetryCount c"
  "AutoRecovery (recordError ev err c) = AutoRecovery c"
  "errorRecovery (recordError ev err c) = errorRecovery c"
  "messageProcessor (recordError ev err c) = messageProcessor c"
  by (simp_all add: recordError_def Let_def Lock_def Unlock_def)

lemma recordError_Stats:
  "MessagesSent (Stats (recordError ev err c)) = MessagesSent (Stats c)"
  "MessagesReceived (Stats (recordError ev err c)) = MessagesReceived (Stats c)"
  "BytesSent (Stats (recordError ev err c)) = BytesSent (Stats c)"
  "BytesReceived (Stats (recordError ev err c)) = BytesReceived (Stats c)"
  "ReconnectCount (Stats (recordError ev err c)) = ReconnectCount (Stats c)"
  "TotalErrors (Errors (Stats (recordError ev err c))) = TotalErrors (Errors (Stats c)) + 1"
  "ErrorsByCode (Errors (Stats (recordError ev err c))) =
     map_inc (ErrorsByCode (Errors (Stats c))) (extractErrorCode (env_pool ev) err)"
  by (simp_all add: recordError_def Let_def)

lemma updateStats_frame [simp]:
  "State (updateStats ev n sent c) = State c"
  "trace (updateStats ev n sent c) = trace c"
  "conn (updateStats ev n sent c) = conn c"
  "held (updateStats ev n sent c) = held c - {Mu}"
  "config (updateStats ev n sent c) = config c"
  "cancelled (updateStats ev n sent c) = cancelled c"
  "RetryCount (updateStats ev n sent c) = RetryCount c"
  "AutoRecovery (updateStats ev n sent c) = AutoRecovery c"
  "errorRecovery (updateStats ev n sent c) = errorRecovery c"
  "messageProcessor (updateStats ev n sent c) = messageProcessor c"
  by (simp_all add: updateStats_def Let_def Lock_def Unlock_def)

lemma updateStats_Stats:
  "MessagesSent (Stats (updateStats ev n sent c)) = MessagesSent (Stats c) + (if sent then 1 else 0)"
  "MessagesReceived (Stats (updateStats ev n sent c)) = MessagesReceived (Stats c) + (if sent then 0 else 1)"
  "BytesSent (Stats (updateStats ev n sent c)) = BytesSent (Stats c) + (if sent then n else 0)"
  "BytesReceived (Stats (updateStats ev n sent c)) = BytesReceived (Stats c) + (if sent then 0 else n)"
  "ReconnectCount (Stats (updateStats ev n sent c)) = ReconnectCount (Stats c)"
  "Errors (Stats (updateStats ev n sent c)) = Errors (Stats c)"
  by (simp_all add: updateStats_def Let_def)

lemma calculateOptimalBufferSize_ge: "messageSize \<le> calculateOptimalBufferSize ev messageSize"
  by (simp add: calculateOptimalBufferSize_def Let_def)

lemma length_Get [simp]: "length (Get buf n) = n"
  by (simp add: Get_def)

lemma take_copy: "length src \<le> length dst \<Longrightarrow> take (length src) (copy dst src) = src"
  by (simp add: copy_def)

lemma sendData_eq: "sendData ev c formattedData = formattedData"
proof -
  have "int (length formattedData) \<le> calculateOptimalBufferSize ev (int (length formattedData))"
    by (rule calculateOptimalBufferSize_ge)
  then have "length formattedData \<le> nat (calculateOptimalBufferSize ev (int (length formattedData)))"
    by linarith
  then show ?thesis
    by (simp add: sendData_def Let_def take_copy)
qed

lemma map_get_empty: "map_get Map.empty k = 0"
  by (simp add: map_get_def)

lemma map_inc_get: "map_get (map_inc m k) k' = (if k' = k then map_get m k + 1 else map_get m k')"
  by (simp add: map_inc_def map_get_def)

lemma run_recovery_frame [simp]:
  "State (run_recovery ev err c) = State c"
  "Stats (run_recovery ev err c) = Stats c"
  "conn (run_recovery ev err c) = conn c"
  "held (run_recovery ev err c) = held c"
  "config (run_recovery ev err c) = config c"
  "cancelled (run_recovery ev err c) = cancelled c"
  "RetryCount (run_recovery ev err c) = RetryCount c"
  "messageProcessor (run_recovery ev err c) = messageProcessor c"
  by (simp_all add: run_recovery_def emit_def split: prod.splits)

lemma State_SendMessage: "State (snd (SendMessage ev messageType data c)) = State c"
  by (simp add: SendMessage_def send_failure_def Let_def handleErrorWithRecovery_def
      getConnSafely_def split: prod.splits option.splits bool.splits)

lemma State_sendControlMessage: "State (snd (sendControlMessage ev messageType data c)) = State c"
  by (simp add: sendControlMessage_def Let_def getConnSafely_def split: option.splits)

lemma State_processReceivedMessage:
  "State (processReceivedMessage ev messageType message c) = State c"
  by (simp add: processReceivedMessage_def Let_def handleErrorWithRecovery_def split: option.splits)

lemma State_Connect: "State (snd (Connect ev c)) \<in> {StateDisconnected, StateConnected}"
  by (simp add: Connect_def Let_def handleConnectionError_def attemptErrorRecovery_def
      setupConnection_def Disconnect_def split: sum.splits option.splits)

lemma State_attemptConnection:
  "State (snd (attemptConnection ev c)) \<in> {StateDisconnected, StateConnected}"
  using State_Connect [of ev c]
  by (auto simp: attemptConnection_def waitForRetry_def Let_def split: prod.splits option.splits)

lemma State_ReadMessages: "State (ReadMessages ev incoming err c) = StateDisconnected"
  by (simp add: ReadMessages_def read_cleanup_def Let_def split: option.splits)

lemma State_Stop: "State (Stop c) = StateDisconnected"
  by (simp add: Stop_def Let_def split: option.splits)

lemma State_updatePrometheusMetrics: "State (snd (updatePrometheusMetrics c)) = State c"
  by (simp add: updatePrometheusMetrics_def Let_def split: option.splits)

lemma dial_timeout_class:
  "inferErrorCode pl (Some dial_timeout) = ErrCodeConnectionTimeout"
  "extractErrorCode pl (Some dial_timeout) = ErrCodeConnectionTimeout"
  "isNetworkError pl (Some dial_timeout)"
  by (simp_all add: dial_timeout_def inferErrorCode_def containsNetworkErrorPattern_def
      network_patterns_def)


lemma dial_timeout_recovery:
  "CanRecover pl (Some dial_timeout)"
  "GetRecoveryStrategy pl (Some dial_timeout) = RecoveryReconnect"
  by (simp_all add: CanRecover_def GetRecoveryStrategy_def dial_timeout_class)


subsection \<open>Corners of the library-facing steps\<close>

text \<open>
  The verb \<open>%d\<close> writes the digits of the least int64, where \<open>WriteInt\<close> writes the sign
  alone;
  \<open>strings.ToLower\<close> folds an ASCII text itself and leaves any other text to the library;
  doubling a delay of \<open>2^62\<close> ns wraps; \<open>updatePrometheusMetrics\<close> panics on a nil map
  when there is an entry to copy; the reply to the peer's close frame is written with
  the locks that the reader holds, which are none in a session of \<open>ReadMessages\<close> alone.
\<close>

lemma digits_nonempty: "0 < n \<Longrightarrow> digits n \<noteq> []"
  by (subst digits.simps) simp

lemma Sprintf_d_negative: "Sprintf_d (- 42) = ''-42''"
  by code_simp

lemma Sprintf_d_least:
  "WriteInt (- 9223372036854775808) = ''-''"
  "Sprintf_d (- 9223372036854775808) \<noteq> ''-''"
  by (simp_all add: WriteInt_def Sprintf_d_def digits_nonempty)

lemma ToLower_ASCII: "ToLower mapLower ''Eval(X)'' = ''eval(x)''"
  by code_simp

lemma ToLower_other: "\<not> isASCII s \<Longrightarrow> ToLower mapLower s = mapLower s"
  by (simp add: ToLower_def)

lemma fallbackOperation_wraps:
  "retryDelay (fst (snd (fallbackOperation ev
      \<lparr>maxRetries = 3, retryDelay = 4611686018427387904, recoveryHistory = Map.empty\<rparr> err)))
     = - 9223372036854775808"
  by (simp add: fallbackOperation_def Let_def signed_take_bit_eq_take_bit_minus)

lemma updatePrometheusMetrics_nil_map:
  assumes "ErrorsByCodeTotal (metrics c) = None" "ErrorsByCode (Errors (Stats c)) code = Some n"
  shows "fst (updatePrometheusMetrics c) = Some AssignmentToEntryInNilMap"
    and "Stats (snd (updatePrometheusMetrics c)) = Stats c"
  using assms by (auto simp: updatePrometheusMetrics_def Let_def)

lemma read_loop_close_reply:
  assumes "env_close_reply ev = Some payload" "conn c = Some cn" "State c = StateConnected"
    and "\<not> cancelled c"
  shows "trace (read_loop ev [] err c) = trace c @ [Write cn CloseMessage payload (held c)]"
  using assms
  by (simp add: shouldContinueReading_def getConnSafely_def failed_read_def handleReadError_def)

subsection \<open>The error trend\<close>

lemma ErrorTrend_recordError:
  "ErrorTrend (Errors (Stats (recordError ev err c))) =
     (let xs = ErrorTrend (Errors (Stats c))
                 @ [\<lparr>Timestamp = env_now ev, ErrorCount = 1,
                     ErrorCode = extractErrorCode (env_pool ev) err\<rparr>]
      in if length xs > 1000 then drop (length xs - 1000) xs else xs)"
  by (simp add: recordError_def Let_def)

text \<open>
  C7. After \<open>recordError\<close> the error trend has at most 1000 points, whatever it held
  before, and it is the old trend with the new point appended, cut to its last 1000
  points: when the append exceeds 1000, the points dropped are the oldest ones.
\<close>

theorem C7_recordError_trend_bounded:
  "(let old = ErrorTrend (Errors (Stats c));
        new = ErrorTrend (Errors (Stats (recordError ev err c)));
        xs = old @ [\<lparr>Timestamp = env_now ev, ErrorCount = 1,
                     ErrorCode = extractErrorCode (env_pool ev) err\<rparr>]
    in length new \<le> 1000 \<and> new = drop (length xs - 1000) xs \<and> suffix new xs)"
  by (simp add: ErrorTrend_recordError Let_def suffix_drop)

subsection \<open>The readiness endpoint\<close>

text \<open>
  C9. \<open>GET /ready\<close> answers 200 with \<open>"ready": true\<close> exactly when the stored state is
  Connected, and 503 with \<open>"ready": false\<close> exactly when it is any other state.
\<close>

theorem C9_handleReady:
  "((status (handleReady ts c) = 200 \<and> HasPrefix (body (handleReady ts c)) (''{'' @ [CHR 0x22] @ ''ready'' @ [CHR 0x22] @ '': true,''))
      = (State c = StateConnected))
   \<and> ((status (handleReady ts c) = 503 \<and> HasPrefix (body (handleReady ts c)) (''{'' @ [CHR 0x22] @ ''ready'' @ [CHR 0x22] @ '': false,''))
      = (State c \<noteq> StateConnected))"
  by (simp add: handleReady_def isConnected_def GetState_def Let_def)

subsection \<open>The reconnect counter\<close>


subsection \<open>The recovery selector on timeout errors\<close>

text \<open>
  C2, as stated, fails: the error that \<open>SendMessage\<close> builds for a failed write deadline
  has kind SendTimeout, and the selector answers Retry for it, not Reset.
\<close>

theorem C2_counterexample:
  "extractErrorCode zero_pool (Some deadline_failure) = ErrCodeSendTimeout
   \<and> GetRecoveryStrategy zero_pool (Some deadline_failure) = RecoveryRetry
   \<and> GetRecoveryStrategy zero_pool (Some deadline_failure) \<noteq> RecoveryReset"
  by (simp add: GetRecoveryStrategy_def deadline_failure_def Get_zero_pool Contains_replicate
      containsNetworkErrorPattern_def network_patterns_def WriteInt_2003 ErrorCode_String_def)

text \<open>
  C2, amended. The selector answers Reset for the package's two timeout values,
  \<open>ErrReadTimeout\<close> and \<open>ErrWriteTimeout\<close>. For an error whose kind is SendTimeout or
  ReceiveTimeout it goes through its cases in order: Reconnect for a network error or
  one that wraps \<open>ErrConnectionClosed\<close>, Retry for one that wraps \<open>ErrHandshakeTimeout\<close>, Reset
  for one that wraps \<open>ErrReadTimeout\<close> or \<open>ErrWriteTimeout\<close>, and Retry otherwise.
\<close>

theorem C2_timeout_strategy:
  "GetRecoveryStrategy pl (Some (Sentinel ErrReadTimeout)) = RecoveryReset
   \<and> GetRecoveryStrategy pl (Some (Sentinel ErrWriteTimeout)) = RecoveryReset
   \<and> (extractErrorCode pl (Some e) = ErrCodeSendTimeout
        \<or> extractErrorCode pl (Some e) = ErrCodeReceiveTimeout \<longrightarrow>
      GetRecoveryStrategy pl (Some e) =
        (if isNetworkError pl (Some e) \<or> errors_Is e ErrConnectionClosed then RecoveryReconnect
         else if errors_Is e ErrHandshakeTimeout then RecoveryRetry
         else if errors_Is e ErrReadTimeout \<or> errors_Is e ErrWriteTimeout then RecoveryReset
         else RecoveryRetry))"
proof -
  have "GetRecoveryStrategy pl (Some (Sentinel ErrReadTimeout)) = RecoveryReset"
    by (simp add: GetRecoveryStrategy_def containsNetworkErrorPattern_def network_patterns_def)
  moreover have "GetRecoveryStrategy pl (Some (Sentinel ErrWriteTimeout)) = RecoveryReset"
    by (simp add: GetRecoveryStrategy_def containsNetworkErrorPattern_def network_patterns_def)
  moreover have "GetRecoveryStrategy pl (Some e) =
        (if isNetworkError pl (Some e) \<or> errors_Is e ErrConnectionClosed then RecoveryReconnect
         else if errors_Is e ErrHandshakeTimeout then RecoveryRetry
         else if errors_Is e ErrReadTimeout \<or> errors_Is e ErrWriteTimeout then RecoveryReset
         else RecoveryRetry)"
    if "extractErrorCode pl (Some e) = ErrCodeSendTimeout
        \<or> extractErrorCode pl (Some e) = ErrCodeReceiveTimeout"
    using that by (cases e) (auto simp: GetRecoveryStrategy_def)
  ultimately show ?thesis by blast
qed

theorem C2_timeout_strategy_witness:
  "extractErrorCode zero_pool (Some write_timeout_failure) = ErrCodeSendTimeout
   \<and> GetRecoveryStrategy zero_pool (Some write_timeout_failure) = RecoveryReset"
proof -
  have kind: "extractErrorCode zero_pool (Some write_timeout_failure) = ErrCodeSendTimeout"
    by (simp add: write_timeout_failure_def)
  have "\<not> isNetworkError zero_pool (Some write_timeout_failure)"
    by (simp add: write_timeout_failure_def Get_zero_pool Contains_replicate
        containsNetworkErrorPattern_def network_patterns_def WriteInt_2003 ErrorCode_String_def)
  moreover have "errors_Is write_timeout_failure ErrWriteTimeout"
    "\<not> errors_Is write_timeout_failure ErrConnectionClosed"
    "\<not> errors_Is write_timeout_failure ErrHandshakeTimeout"
    by (simp_all add: write_timeout_failure_def)
  ultimately show ?thesis
    using kind C2_timeout_strategy [of zero_pool write_timeout_failure] by simp
qed

subsection \<open>Sending at the size limit\<close>

text \<open>
  A text with a letter outside ASCII is judged by what the library's case mapping makes
  of it: when that holds a blocked pattern, the text is refused.
\<close>

lemma CheckMessage_judges_mapped_text:
  assumes "\<not> isASCII data" "int (length data) \<le> sc_maxMessageSize sc"
    and "pattern \<in> set (blockedPatterns sc)" "Contains (env_map_lower ev data) pattern"
  shows "fst (CheckMessage ev sc TextMessage data) \<noteq> None"
proof -
  have "find (Contains (ToLower (env_map_lower ev) data)) (blockedPatterns sc) \<noteq> None"
    using assms by (auto simp: ToLower_def find_None_iff)
  then show ?thesis
    using assms(2) by (auto simp: CheckMessage_def split: option.splits)
qed

text \<open>
  C3, as stated, fails: with the limit at 10 bytes, a connected client answers an
  11-byte text with an error of kind SecurityViolation (6001), not MessageTooLarge
  (2001); the count of code 2001 stays 0.
\<close>

theorem C3_counterexample:
  "State (connected_client small_config) = StateConnected
   \<and> int (length ''hello world'') = MaxMessageSize (config (connected_client small_config)) + 1
   \<and> extractErrorCode zero_pool
        (fst (SendMessage quiet_env TextMessage ''hello world'' (connected_client small_config)))
       = ErrCodeSecurityViolation
   \<and> extractErrorCode zero_pool
        (fst (SendMessage quiet_env TextMessage ''hello world'' (connected_client small_config)))
       \<noteq> ErrCodeMessageTooLarge
   \<and> map_get (ErrorsByCode (Errors (Stats (snd
        (SendMessage quiet_env TextMessage ''hello world'' (connected_client small_config))))))
        ErrCodeMessageTooLarge = 0"
proof -
  let ?c = "connected_client small_config"
  have chk: "\<exists>cause sc. CheckMessage quiet_env (securityChecker ?c) TextMessage
                ''hello world'' = (Some cause, sc)"
    by (simp add: CheckMessage_def connected_client_simps NewSecurityChecker_def small_config_simps)
  then obtain cause sc where "CheckMessage quiet_env (securityChecker ?c) TextMessage
                ''hello world'' = (Some cause, sc)"
    by blast
  then have "SendMessage quiet_env TextMessage ''hello world'' ?c
      = send_failure quiet_env ErrCodeSecurityViolation cause False
          (?c\<lparr>rateLimiter := (NewRateLimiter 100 Minute)\<lparr>requests := [env_now quiet_env]\<rparr>,
               securityChecker := sc\<rparr>)"
    by (simp add: SendMessage_def Allow_connected_client)
  then show ?thesis
    by (simp add: send_failure_def Let_def recordError_Stats map_inc_get connected_client_Stats
        connected_client_simps small_config_simps map_get_empty)
qed

text \<open>
  C3, amended. While the client is connected and the rate limiter admits the send: a
  payload of one byte more than the limit is refused by the security checker, which
  \<open>SendMessage\<close> asks first, with an error of kind SecurityViolation (6001); the message
  and byte counters, the state and the transport are left as they were, and the count
  of code 6001 grows by one. A payload of exactly the limit passes every size check.
  When its frame type is valid, its content is not blocked (for a text frame: no blocked
  pattern occurs in what \<open>strings.ToLower\<close> makes of it, letters outside ASCII included)
  and the transport accepts it, the send succeeds, one frame is written under \<open>writeMu\<close>,
  and the counters grow by one message and by the payload's length. A text frame within
  the limit whose lower-cased content holds a blocked pattern is refused like the
  oversized one.
\<close>

theorem C3_send_size_boundary:
  assumes admitted: "Allow (env_now ev) (rateLimiter c) = (True, rl)"
    and connected: "conn c = Some cn" "State c = StateConnected"
    and limits: "sc_maxMessageSize (securityChecker c) = MaxMessageSize (config c)"
      "maxMessageSize (messageProcessor c) = MaxMessageSize (config c)"
  shows "(int (length data) = MaxMessageSize (config c) + 1 \<longrightarrow>
            (case SendMessage ev messageType data c of (r, c') \<Rightarrow>
               (\<exists>cause. r = Some (ConnectionError ErrCodeSecurityViolation ''send''
                                     (URL (config c)) (Some cause) False))
               \<and> MessagesSent (Stats c') = MessagesSent (Stats c)
               \<and> BytesSent (Stats c') = BytesSent (Stats c)
               \<and> State c' = StateConnected
               \<and> trace c' = trace c
               \<and> map_get (ErrorsByCode (Errors (Stats c'))) ErrCodeSecurityViolation
                   = map_get (ErrorsByCode (Errors (Stats c))) ErrCodeSecurityViolation + 1
               \<and> map_get (ErrorsByCode (Errors (Stats c'))) ErrCodeMessageTooLarge
                   = map_get (ErrorsByCode (Errors (Stats c))) ErrCodeMessageTooLarge))
       \<and> (int (length data) = MaxMessageSize (config c)
            \<and> messageType \<in> {TextMessage, BinaryMessage, PingMessage, PongMessage, CloseMessage}
            \<and> (messageType = TextMessage \<longrightarrow>
                  find (Contains (ToLower (env_map_lower ev) data))
                    (blockedPatterns (securityChecker c)) = None)
            \<and> env_deadline_err ev = None \<and> env_write_err ev = None \<longrightarrow>
            (case SendMessage ev messageType data c of (r, c') \<Rightarrow>
               r = None
               \<and> MessagesSent (Stats c') = MessagesSent (Stats c) + 1
               \<and> BytesSent (Stats c') = BytesSent (Stats c) + of_nat (length data)
               \<and> State c' = StateConnected
               \<and> trace c' = trace c @ [Write cn messageType data (insert WriteMu (held c))]))
       \<and> (int (length data) \<le> MaxMessageSize (config c) \<and> messageType = TextMessage
            \<and> find (Contains (ToLower (env_map_lower ev) data))
                 (blockedPatterns (securityChecker c)) \<noteq> None \<longrightarrow>
            (case SendMessage ev messageType data c of (r, c') \<Rightarrow>
               (\<exists>cause. r = Some (ConnectionError ErrCodeSecurityViolation ''send''
                                     (URL (config c)) (Some cause) False))
               \<and> MessagesSent (Stats c') = MessagesSent (Stats c)
               \<and> BytesSent (Stats c') = BytesSent (Stats c)
               \<and> State c' = StateConnected
               \<and> trace c' = trace c
               \<and> map_get (ErrorsByCode (Errors (Stats c'))) ErrCodeSecurityViolation
                   = map_get (ErrorsByCode (Errors (Stats c))) ErrCodeSecurityViolation + 1))"
proof -
  have refused: "case SendMessage ev messageType data c of (r, c') \<Rightarrow>
               (\<exists>cause. r = Some (ConnectionError ErrCodeSecurityViolation ''send''
                                     (URL (config c)) (Some cause) False))
               \<and> MessagesSent (Stats c') = MessagesSent (Stats c)
               \<and> BytesSent (Stats c') = BytesSent (Stats c)
               \<and> State c' = StateConnected
               \<and> trace c' = trace c
               \<and> map_get (ErrorsByCode (Errors (Stats c'))) ErrCodeSecurityViolation
                   = map_get (ErrorsByCode (Errors (Stats c))) ErrCodeSecurityViolation + 1
               \<and> map_get (ErrorsByCode (Errors (Stats c'))) ErrCodeMessageTooLarge
                   = map_get (ErrorsByCode (Errors (Stats c))) ErrCodeMessageTooLarge"
    if stopped: "fst (CheckMessage ev (securityChecker c) messageType data) \<noteq> None"
  proof -
    obtain cause sc where chk:
      "CheckMessage ev (securityChecker c) messageType data = (Some cause, sc)"
      using stopped by (cases "CheckMessage ev (securityChecker c) messageType data") auto
    show ?thesis
      using admitted chk connected
      by (simp add: SendMessage_def send_failure_def Let_def recordError_Stats map_inc_get)
  qed
  have over: "case SendMessage ev messageType data c of (r, c') \<Rightarrow>
               (\<exists>cause. r = Some (ConnectionError ErrCodeSecurityViolation ''send''
                                     (URL (config c)) (Some cause) False))
               \<and> MessagesSent (Stats c') = MessagesSent (Stats c)
               \<and> BytesSent (Stats c') = BytesSent (Stats c)
               \<and> State c' = StateConnected
               \<and> trace c' = trace c
               \<and> map_get (ErrorsByCode (Errors (Stats c'))) ErrCodeSecurityViolation
                   = map_get (ErrorsByCode (Errors (Stats c))) ErrCodeSecurityViolation + 1
               \<and> map_get (ErrorsByCode (Errors (Stats c'))) ErrCodeMessageTooLarge
                   = map_get (ErrorsByCode (Errors (Stats c))) ErrCodeMessageTooLarge"
    if "int (length data) = MaxMessageSize (config c) + 1"
  proof -
    have "fst (CheckMessage ev (securityChecker c) messageType data) \<noteq> None"
      using that limits by (simp add: CheckMessage_def)
    then show ?thesis
      by (rule refused)
  qed
  have exact: "case SendMessage ev messageType data c of (r, c') \<Rightarrow>
               r = None
               \<and> MessagesSent (Stats c') = MessagesSent (Stats c) + 1
               \<and> BytesSent (Stats c') = BytesSent (Stats c) + of_nat (length data)
               \<and> State c' = StateConnected
               \<and> trace c' = trace c @ [Write cn messageType data (insert WriteMu (held c))]"
    if exact: "int (length data) = MaxMessageSize (config c)
            \<and> messageType \<in> {TextMessage, BinaryMessage, PingMessage, PongMessage, CloseMessage}
            \<and> (messageType = TextMessage \<longrightarrow>
                  find (Contains (ToLower (env_map_lower ev) data))
                    (blockedPatterns (securityChecker c)) = None)
            \<and> env_deadline_err ev = None \<and> env_write_err ev = None"
  proof -
    have chk: "CheckMessage ev (securityChecker c) messageType data = (None, securityChecker c)"
      using exact limits by (auto simp: CheckMessage_def)
    have val: "ValidateMessage (messageProcessor c) messageType data = None"
      using exact limits by (auto simp: ValidateMessage_def)
    show ?thesis
      using admitted chk val connected exact
      by (simp add: SendMessage_def getConnSafely_def Let_def updateStats_Stats sendData_eq)
  qed
  have blocked: "case SendMessage ev messageType data c of (r, c') \<Rightarrow>
               (\<exists>cause. r = Some (ConnectionError ErrCodeSecurityViolation ''send''
                                     (URL (config c)) (Some cause) False))
               \<and> MessagesSent (Stats c') = MessagesSent (Stats c)
               \<and> BytesSent (Stats c') = BytesSent (Stats c)
               \<and> State c' = StateConnected
               \<and> trace c' = trace c
               \<and> map_get (ErrorsByCode (Errors (Stats c'))) ErrCodeSecurityViolation
                   = map_get (ErrorsByCode (Errors (Stats c))) ErrCodeSecurityViolation + 1"
    if "int (length data) \<le> MaxMessageSize (config c) \<and> messageType = TextMessage
            \<and> find (Contains (ToLower (env_map_lower ev) data))
                 (blockedPatterns (securityChecker c)) \<noteq> None"
  proof -
    have "fst (CheckMessage ev (securityChecker c) messageType data) \<noteq> None"
      using that limits by (auto simp: CheckMessage_def split: option.splits)
    then show ?thesis
      using refused by (auto split: prod.splits)
  qed
  from over exact blocked show ?thesis
    by blast
qed

text \<open>
  At the limit of 10 bytes: ten digits are sent; eleven bytes are refused with 6001; ten
  bytes that spell a blocked pattern in upper case are refused with 6001 as well.
\<close>

lemma upper_case_script_blocked:
  "find (Contains (ToLower mapLower ''<SCRIPT>xx'')) (blockedPatterns (NewSecurityChecker 10))
     = Some ''<script''"
  by code_simp

theorem C3_send_size_boundary_witness:
  "fst (SendMessage quiet_env TextMessage ''0123456789'' (connected_client small_config)) = None
   \<and> BytesSent (Stats (snd (SendMessage quiet_env TextMessage ''0123456789''
                               (connected_client small_config)))) = 10
   \<and> MessagesSent (Stats (snd (SendMessage quiet_env TextMessage ''0123456789''
                               (connected_client small_config)))) = 1
   \<and> (\<exists>cause. fst (SendMessage quiet_env TextMessage ''hello world'' (connected_client small_config))
         = Some (ConnectionError ErrCodeSecurityViolation ''send'' ''wss://echo.example/ws''
                   (Some cause) False))
   \<and> BytesSent (Stats (snd (SendMessage quiet_env TextMessage ''hello world''
                               (connected_client small_config)))) = 0
   \<and> State (snd (SendMessage quiet_env TextMessage ''hello world''
                               (connected_client small_config))) = StateConnected
   \<and> (\<exists>cause. fst (SendMessage quiet_env TextMessage ''<SCRIPT>xx'' (connected_client small_config))
         = Some (ConnectionError ErrCodeSecurityViolation ''send'' ''wss://echo.example/ws''
                   (Some cause) False))
   \<and> MessagesSent (Stats (snd (SendMessage quiet_env TextMessage ''<SCRIPT>xx''
                               (connected_client small_config)))) = 0"
proof -
  let ?c = "connected_client small_config"
  have adm: "Allow (env_now quiet_env) (rateLimiter ?c)
      = (True, (NewRateLimiter 100 Minute)\<lparr>requests := [env_now quiet_env]\<rparr>)"
    by (rule Allow_connected_client)
  have lim: "sc_maxMessageSize (securityChecker ?c) = MaxMessageSize (config ?c)"
    "maxMessageSize (messageProcessor ?c) = MaxMessageSize (config ?c)"
    by (simp_all add: connected_client_simps NewSecurityChecker_def NewDefaultMessageProcessor_def)
  note th = C3_send_size_boundary [OF adm connected_client_simps(2) connected_client_simps(1) lim]
  have exact: "int (length ''0123456789'') = MaxMessageSize (config ?c)
      \<and> TextMessage \<in> {TextMessage, BinaryMessage, PingMessage, PongMessage, CloseMessage}
      \<and> (TextMessage = TextMessage \<longrightarrow>
            find (Contains (ToLower (env_map_lower quiet_env) ''0123456789''))
              (blockedPatterns (securityChecker ?c)) = None)
      \<and> env_deadline_err quiet_env = None \<and> env_write_err quiet_env = None"
    by (simp add: connected_client_simps small_config_simps digits_harmless quiet_env_def)
  have over: "int (length ''hello world'') = MaxMessageSize (config ?c) + 1"
    by (simp add: connected_client_simps small_config_simps)
  have blocked: "int (length ''<SCRIPT>xx'') \<le> MaxMessageSize (config ?c) \<and> TextMessage = TextMessage
      \<and> find (Contains (ToLower (env_map_lower quiet_env) ''<SCRIPT>xx''))
           (blockedPatterns (securityChecker ?c)) \<noteq> None"
    by (simp add: connected_client_simps small_config_simps upper_case_script_blocked)
  note a = th [of "''0123456789''" TextMessage, THEN conjunct2, THEN conjunct1, THEN mp, OF exact]
  note b = th [of "''hello world''" TextMessage, THEN conjunct1, THEN mp, OF over]
  note c = th [of "''<SCRIPT>xx''" TextMessage, THEN conjunct2, THEN conjunct2, THEN mp, OF blocked]
  from a b c show ?thesis
    by (auto simp: connected_client_Stats connected_client_simps small_config_simps
        split: prod.splits)
qed

subsection \<open>The state after stopping\<close>

text \<open>
  C4. The documentation of \<open>ConnectionState\<close> and of \<open>setState\<close> has every stop end in
  Stopped, and \<open>handleHealth\<close> answers 503 exactly for Stopping and Stopped. \<open>Stop\<close> stores
  Disconnected instead: after \<open>Stop\<close> the state is Disconnected and not Stopped, and
  \<open>GET /health\<close> answers 200. No operation stores Stopping or Stopped: each leaves the
  state as it was, or at Disconnected, or at Connected. Nor is Stopped guarded: \<open>Connect\<close>
  on a client whose state is Stopped leaves it at Disconnected or Connected.
\<close>

theorem C4_stop_ends_Disconnected_not_Stopped:
  "State (Stop c) = StateDisconnected
   \<and> State (Stop c) \<noteq> StateStopped
   \<and> status (handleHealth ts (Stop c)) = 200
   \<and> (status (handleHealth ts c) = 503) = (State c = StateStopping \<or> State c = StateStopped)
   \<and> State (exec ev op c) \<in> {State c, StateDisconnected, StateConnected}
   \<and> State (snd (Connect ev (c\<lparr>State := StateStopped\<rparr>))) \<in> {StateDisconnected, StateConnected}"
proof -
  have "State (exec ev op c) \<in> {State c, StateDisconnected, StateConnected}"
    using State_Connect [of ev c] State_attemptConnection [of ev c]
    by (cases op)
      (simp_all add: State_SendMessage State_sendControlMessage State_processReceivedMessage
        State_ReadMessages State_Stop State_updatePrometheusMetrics)
  moreover have "status (handleHealth ts (Stop c)) = 200"
    by (simp add: handleHealth_def GetState_def Let_def State_Stop)
  moreover have "(status (handleHealth ts c) = 503)
      = (State c = StateStopping \<or> State c = StateStopped)"
    by (auto simp: handleHealth_def GetState_def Let_def)
  ultimately show ?thesis
    using State_Connect [of ev "c\<lparr>State := StateStopped\<rparr>"] by (simp add: State_Stop)
qed

subsection \<open>The retry policy\<close>

lemma failing_simps:
  "env_dial failing_env = Inl dial_timeout" "env_recover_ctx failing_env = None"
  "env_wait_ctx failing_env = None" "r_env failing_round = failing_env"
  "r_incoming failing_round = []" "env_pool failing_env = zero_pool"
  by (simp_all add: failing_env_def failing_round_def quiet_env_def)

text \<open>The retry policy reads the configuration and the retry counter only.\<close>

lemma to_int32_sint:
  assumes "0 \<le> sint x" "sint x \<le> MaxInt32"
  shows "sint (to_int32 x) = sint x"
proof -
  have "sint (word_of_int (sint x) :: 32 word) = signed_take_bit 31 (sint x)"
    by (simp only: sint_sbintrunc') simp
  also have "\<dots> = sint x"
    using assms by (intro signed_take_bit_int_eq_self) simp_all
  finally show ?thesis
    using assms by (simp only: to_int32_def) simp
qed

lemma sint_double:
  fixes n :: "64 word"
  assumes "0 \<le> sint n" "sint n \<le> 1073741823"
  shows "sint (n * 2) = 2 * sint n"
proof -
  have "sint (n * 2) = signed_take_bit 63 (sint n * 2)"
    by (simp add: sint_word_mult)
  also have "\<dots> = sint n * 2"
    using assms by (intro signed_take_bit_int_eq_self) simp_all
  finally show ?thesis by simp
qed

lemma shouldStopRetrying_iff:
  assumes "0 < sint (MaxRetries (config c))" "sint (MaxRetries (config c)) \<le> 1073741823"
  shows "shouldStopRetrying c = (2 * sint (MaxRetries (config c)) \<le> sint (RetryCount c))"
proof -
  let ?n = "MaxRetries (config c)"
  have d: "sint (?n * 2) = 2 * sint ?n"
    using assms by (intro sint_double) simp_all
  have nz: "?n \<noteq> 0"
    using assms(1) by auto
  have "sint (to_int32 (?n * 2)) = 2 * sint ?n"
    using assms d by (simp add: to_int32_sint)
  then show ?thesis
    using assms d nz by (simp add: shouldStopRetrying_def Let_def)
qed

lemma calculateRetryDelay_eq:
  assumes "0 < sint (MaxRetries (config c))" "sint (MaxRetries (config c)) \<le> MaxInt32"
  shows "calculateRetryDelay c
     = (if sint (RetryCount c) \<le> sint (MaxRetries (config c)) then 0 else RetryDelay (config c))"
proof -
  have nz: "MaxRetries (config c) \<noteq> 0"
    using assms(1) by auto
  have "sint (to_int32 (MaxRetries (config c))) = sint (MaxRetries (config c))"
    using assms by (simp add: to_int32_sint)
  then show ?thesis
    using nz by (simp add: calculateRetryDelay_def Let_def)
qed

text \<open>A failed dial.\<close>

lemma trace_run_recovery:
  "trace (run_recovery ev err c) = trace c @
     (if AutoRecovery c \<and> CanRecover (env_pool ev) (Some err)
      then snd (snd (Recover ev (errorRecovery c) err)) else [])"
  by (simp add: run_recovery_def split: prod.splits)

lemma errorRecovery_run_recovery:
  "errorRecovery (run_recovery ev err c) =
     (if AutoRecovery c \<and> CanRecover (env_pool ev) (Some err)
      then fst (snd (Recover ev (errorRecovery c) err)) else errorRecovery c)"
  by (simp add: run_recovery_def emit_def split: prod.splits)

lemma AutoRecovery_run_recovery [simp]:
  "AutoRecovery (run_recovery ev err c) = AutoRecovery c"
  by (simp add: run_recovery_def emit_def split: prod.splits)

lemma Connect_fails:
  assumes "env_dial ev = Inl err"
  shows "fst (Connect ev c) = Some (ConnectionError (inferErrorCode (env_pool ev) (Some err))
            ''connect'' (URL (config c)) (Some err) True)"
    and "snd (Connect ev c)
      = run_recovery ev err (recordError ev (Some err)
          (setState StateDisconnected (emit [Dialed] (setState StateConnecting c))))"
  using assms by (simp_all add: Connect_def handleConnectionError_def attemptErrorRecovery_def Let_def
      setState_def emit_def)

lemma Connect_fails_frame:
  assumes "env_dial ev = Inl err"
  shows "Stats (snd (Connect ev c)) = Stats (recordError ev (Some err) c)"
    and "State (snd (Connect ev c)) = StateDisconnected"
    and "RetryCount (snd (Connect ev c)) = RetryCount c"
    and "config (snd (Connect ev c)) = config c"
    and "cancelled (snd (Connect ev c)) = cancelled c"
    and "conn (snd (Connect ev c)) = conn c"
    and "AutoRecovery (snd (Connect ev c)) = AutoRecovery c"
  using assms
  by (simp_all add: Connect_fails recordError_def Let_def Lock_def Unlock_def setState_def emit_def)

lemma Connect_fails_metrics:
  assumes "env_dial ev = Inl err"
  shows "metrics (snd (Connect ev c)) = metrics (recordError ev (Some err) c)"
  using assms
  by (simp add: Connect_fails recordError_def Let_def Lock_def Unlock_def setState_def emit_def
      run_recovery_def split: prod.splits)

lemma errors_by_code_total_recordError:
  "errors_by_code_total (recordError ev err c) code
     = errors_by_code_total c code + (if code = extractErrorCode (env_pool ev) err then 1 else 0)"
  by (simp add: errors_by_code_total_def recordError_def Let_def Lock_def Unlock_def
      map_inc_get map_get_empty split: option.splits)

lemma attemptConnection_fails:
  assumes "env_dial ev = Inl err"
  shows "attemptConnection ev c =
     (let c2 = (snd (Connect ev c))\<lparr>RetryCount := RetryCount c + 1\<rparr>
      in if shouldStopRetrying c2 then (False, c2) else waitForRetry ev c2)"
proof -
  obtain r c1 where eq: "Connect ev c = (r, c1)"
    by (cases "Connect ev c")
  have "r = Some (ConnectionError (inferErrorCode (env_pool ev) (Some err))
            ''connect'' (URL (config c)) (Some err) True)"
    using Connect_fails(1) [OF assms, of c] eq by simp
  moreover have "RetryCount c1 = RetryCount c"
    using Connect_fails_frame(3) [OF assms, of c] eq by simp
  ultimately show ?thesis
    using eq by (simp add: attemptConnection_def Let_def)
qed

text \<open>The supervisor against the connector that always fails.\<close>

lemma failing_Connect:
  assumes "AutoRecovery c"
  shows "snd (Connect failing_env c)
     = emit [Slept Recovery (retryDelay (errorRecovery c))]
         (recordError failing_env (Some dial_timeout)
            (setState StateDisconnected (emit [Dialed] (setState StateConnecting c))))"
  using assms
  by (simp add: Connect_fails(2) [OF failing_simps(1)] run_recovery_def failing_simps
      dial_timeout_recovery Recover_def reconnectOperation_def select_timer_def
      setState_def emit_def)

lemma after_failed_dial:
  assumes "AutoRecovery c"
  shows "trace (snd (Connect failing_env c))
       = trace c @ [Dialed, Slept Recovery (retryDelay (errorRecovery c))]"
    and "errorRecovery (snd (Connect failing_env c)) = errorRecovery c"
    and "Errors (Stats (snd (Connect failing_env c)))
       = Errors (Stats (recordError failing_env (Some dial_timeout) c))"
  by (simp_all add: failing_Connect [OF assms] emit_def setState_def recordError_def Let_def
      Lock_def Unlock_def)

lemma idle_session:
  assumes "State c = StateDisconnected" "conn c = None"
  shows "fst (handleConnectedSession failing_round c) = (\<not> cancelled c)"
    and "cancelled (snd (handleConnectedSession failing_round c)) = cancelled c"
    and "conn (snd (handleConnectedSession failing_round c)) = None"
    and "State (snd (handleConnectedSession failing_round c)) = StateDisconnected"
    and "AutoRecovery (snd (handleConnectedSession failing_round c)) = AutoRecovery c"
    and "config (snd (handleConnectedSession failing_round c)) = config c"
    and "RetryCount (snd (handleConnectedSession failing_round c)) = RetryCount c"
    and "trace (snd (handleConnectedSession failing_round c)) = trace c"
    and "errorRecovery (snd (handleConnectedSession failing_round c)) = errorRecovery c"
    and "Stats (snd (handleConnectedSession failing_round c)) = Stats c"
  using assms
  by (simp_all add: handleConnectedSession_def ReadMessages_def read_cleanup_def failing_simps
      shouldContinueReading_def getConnSafely_def Let_def Lock_def Unlock_def setState_def)

lemma waitForRetry_quiet:
  "waitForRetry failing_env c = (True, emit [Slept RetryWait (calculateRetryDelay c)] c)"
  by (simp add: waitForRetry_def failing_simps Let_def)

lemma sint_Suc32:
  fixes x :: "32 word"
  assumes "sint x < MaxInt32"
  shows "sint (x + 1) = sint x + 1"
proof -
  have "sint (x + 1) = signed_take_bit 31 (sint x + 1)"
    by (simp add: sint_word_add)
  also have "\<dots> = sint x + 1"
  proof (rule signed_take_bit_int_eq_self)
    have "- (2 ^ 31) \<le> sint x"
      using sint_ge [of x] by simp
    then show "- (2 ^ 31) \<le> sint x + 1" by simp
    show "sint x + 1 < 2 ^ 31" using assms by simp
  qed
  finally show ?thesis .
qed

lemma failing_run:
  fixes N :: "64 word"
  assumes N: "0 < sint N" "sint N \<le> 1073741823"
  shows "\<not> cancelled c \<Longrightarrow> conn c = None \<Longrightarrow> AutoRecovery c \<Longrightarrow> MaxRetries (config c) = N
     \<Longrightarrow> sint (RetryCount c) = int k \<Longrightarrow> int k + int m = 2 * sint N \<Longrightarrow> 0 < m
     \<Longrightarrow> \<exists>c'. Start (replicate m failing_round) c = Some c'
            \<and> cancelled c' \<and> State c' = StateDisconnected
            \<and> sint (RetryCount c') = 2 * sint N
            \<and> trace c' = trace c @ retry_events (sint N) (retryDelay (errorRecovery c))
                                     (RetryDelay (config c)) k m
            \<and> (\<forall>code. map_get (ErrorsByCode (Errors (Stats c'))) code
                  = map_get (ErrorsByCode (Errors (Stats c))) code
                    + (if code = ErrCodeConnectionTimeout then of_nat m else 0))"
proof (induction m arbitrary: c k)
  case 0
  then show ?case by simp
next
  case (Suc m)
  let ?c1 = "(snd (Connect failing_env c))\<lparr>RetryCount := RetryCount c + 1\<rparr>"
  note fr = Connect_fails_frame [OF failing_simps(1), of c]
  note ad = after_failed_dial [OF Suc.prems(3)]
  have small: "sint (RetryCount c) < MaxInt32"
    using Suc.prems(5,6) N by simp
  have count: "sint (RetryCount ?c1) = int k + 1"
    using sint_Suc32 [OF small] Suc.prems(5) by simp
  have cfg: "config ?c1 = config c"
    by (simp add: fr)
  have stop: "shouldStopRetrying ?c1 = (2 * sint N \<le> int k + 1)"
    using N Suc.prems(4) count cfg by (simp add: shouldStopRetrying_iff)
  have delay: "calculateRetryDelay ?c1
      = (if int k + 1 \<le> sint N then 0 else RetryDelay (config c))"
    using N Suc.prems(4) count cfg by (simp add: calculateRetryDelay_eq)
  have att: "attemptConnection failing_env c
      = (if shouldStopRetrying ?c1 then (False, ?c1) else waitForRetry failing_env ?c1)"
    by (simp add: attemptConnection_fails [OF failing_simps(1)] Let_def)
  have errs1: "map_get (ErrorsByCode (Errors (Stats ?c1))) code
      = map_get (ErrorsByCode (Errors (Stats c))) code
        + (if code = ErrCodeConnectionTimeout then 1 else 0)" for code
    by (simp add: ad recordError_Stats map_inc_get failing_simps dial_timeout_class)
  show ?case
  proof (cases "2 * sint N \<le> int k + 1")
    case True
    then have m0: "m = 0"
      using Suc.prems(6) by simp
    have "Start (replicate (Suc m) failing_round) c = Some (cancel ?c1)"
      using Suc.prems(1) att stop True by (simp add: failing_simps)
    moreover have "trace (cancel ?c1)
        = trace c @ retry_events (sint N) (retryDelay (errorRecovery c)) (RetryDelay (config c))
                      k (Suc m)"
      using True by (simp add: ad cancel_def)
    moreover have "sint (RetryCount (cancel ?c1)) = 2 * sint N"
      using count True Suc.prems(6) m0 by (simp add: cancel_def)
    moreover have "State (cancel ?c1) = StateDisconnected" "cancelled (cancel ?c1)"
      by (simp_all add: fr cancel_def)
    moreover have "\<forall>code. map_get (ErrorsByCode (Errors (Stats (cancel ?c1)))) code
        = map_get (ErrorsByCode (Errors (Stats c))) code
          + (if code = ErrCodeConnectionTimeout then of_nat (Suc m) else 0)"
      using errs1 m0 by (simp add: cancel_def)
    ultimately show ?thesis by blast
  next
    case False
    let ?c2 = "emit [Slept RetryWait (calculateRetryDelay ?c1)] ?c1"
    have idle: "State ?c2 = StateDisconnected" "conn ?c2 = None"
      using Suc.prems(2) by (simp_all add: fr emit_def)
    have nc2: "\<not> cancelled ?c2"
      using Suc.prems(1) by (simp add: fr emit_def)
    obtain c3 where hcs: "handleConnectedSession failing_round ?c2 = (True, c3)"
      using nc2 idle_session(1) [OF idle] by (cases "handleConnectedSession failing_round ?c2") simp
    note ses = idle_session(2-10) [OF idle, unfolded hcs snd_conv]
    have step: "Start (replicate (Suc m) failing_round) c = Start (replicate m failing_round) c3"
      using Suc.prems(1) att stop False hcs
      by (simp add: failing_simps waitForRetry_quiet)
    have mpos: "0 < m"
      using False Suc.prems(6) by simp
    have pre: "\<not> cancelled c3" "conn c3 = None" "AutoRecovery c3" "MaxRetries (config c3) = N"
      "sint (RetryCount c3) = int (Suc k)" "int (Suc k) + int m = 2 * sint N"
      using nc2 Suc.prems(3,4,6) count
      by (simp_all add: ses fr emit_def)
    from Suc.IH [OF pre mpos] obtain c' where all:
      "Start (replicate m failing_round) c3 = Some c'
        \<and> cancelled c' \<and> State c' = StateDisconnected
        \<and> sint (RetryCount c') = 2 * sint N
        \<and> trace c' = trace c3 @ retry_events (sint N) (retryDelay (errorRecovery c3))
                                (RetryDelay (config c3)) (Suc k) m
        \<and> (\<forall>code. map_get (ErrorsByCode (Errors (Stats c'))) code
                  = map_get (ErrorsByCode (Errors (Stats c3))) code
                    + (if code = ErrCodeConnectionTimeout then of_nat m else 0))" ..
    note c' = all [THEN conjunct1] all [THEN conjunct2, THEN conjunct1]
      all [THEN conjunct2, THEN conjunct2, THEN conjunct1]
      all [THEN conjunct2, THEN conjunct2, THEN conjunct2, THEN conjunct1]
      all [THEN conjunct2, THEN conjunct2, THEN conjunct2, THEN conjunct2, THEN conjunct1]
      all [THEN conjunct2, THEN conjunct2, THEN conjunct2, THEN conjunct2, THEN conjunct2]
    have tr: "trace c' = trace c @ retry_events (sint N) (retryDelay (errorRecovery c))
                                     (RetryDelay (config c)) k (Suc m)"
      using c'(5) False delay by (simp add: ses fr ad emit_def)
    have same: "Stats c3 = Stats ?c1"
      by (simp add: ses emit_def)
    have er: "\<forall>code. map_get (ErrorsByCode (Errors (Stats c'))) code
                  = map_get (ErrorsByCode (Errors (Stats c))) code
                    + (if code = ErrCodeConnectionTimeout then of_nat (Suc m) else 0)"
      using c'(6) errs1 unfolding same by simp
    show ?thesis
      using step c'(1-4) tr er by simp
  qed
qed


lemma retry_waits_append: "retry_waits (xs @ ys) = retry_waits xs @ retry_waits ys"
  by (induction xs rule: retry_waits.induct) simp_all

lemma retry_waits_retry_events:
  "int k + int m = 2 * N \<Longrightarrow> 0 < m \<Longrightarrow>
     retry_waits (retry_events N R D k m)
       = replicate (nat N - k) 0 @ replicate (min (nat N - 1) (m - 1)) D"
proof (induction m arbitrary: k)
  case 0
  then show ?case by simp
next
  case (Suc m)
  show ?case
  proof (cases "2 * N \<le> int k + 1")
    case True
    then have "m = 0" "nat N \<le> k"
      using Suc.prems by simp_all
    then show ?thesis
      using True by simp
  next
    case False
    then have mpos: "0 < m"
      using Suc.prems by simp
    have next_: "int (Suc k) + int m = 2 * N"
      using Suc.prems by simp
    note IH = Suc.IH [OF next_ mpos]
    show ?thesis
    proof (cases "int k + 1 \<le> N")
      case True
      then have "nat N - k = Suc (nat N - Suc k)" by linarith
      moreover have "min (nat N - 1) (Suc m - 1) = nat N - 1" "min (nat N - 1) (m - 1) = nat N - 1"
        using True next_ by linarith+
      ultimately show ?thesis
        using False True IH by simp
    next
      case F2: False
      then have "nat N - k = 0" "nat N - Suc k = 0" by linarith+
      moreover have "min (nat N - 1) (Suc m - 1) = Suc (min (nat N - 1) (m - 1))"
        using F2 next_ mpos by (simp add: min_def) linarith
      ultimately show ?thesis
        using False F2 IH by (simp add: replicate_append_same)
    qed
  qed
qed

lemma new_client_simps:
  "cancelled (NewWebSocketClient cfg sid) = False"
  "conn (NewWebSocketClient cfg sid) = None"
  "AutoRecovery (NewWebSocketClient cfg sid) = True"
  "config (NewWebSocketClient cfg sid) = cfg"
  "RetryCount (NewWebSocketClient cfg sid) = 0"
  "trace (NewWebSocketClient cfg sid) = []"
  "errorRecovery (NewWebSocketClient cfg sid)
     = NewDefaultErrorRecovery (sint (MaxRetries cfg)) (RetryDelay cfg)"
  "ErrorsByCode (Errors (Stats (NewWebSocketClient cfg sid))) = Map.empty"
  by (simp_all add: NewWebSocketClient_def)

lemma retry_config_simps:
  "MaxRetries (retry_config n) = n" "RetryDelay (retry_config n) = 3 * Second"
  by (simp_all add: retry_config_def echo_config_def NewDefaultConfig_def)

text \<open>
  The schedule for every limit \<open>N\<close> from 1 to \<open>2^30 - 1\<close>: the supervisor gives up after \<open>2N\<close>
  failed dials, and the waits of the retry policy between them are \<open>N\<close> times 0 and then
  \<open>N - 1\<close> times the slow retry delay.
\<close>

lemma retry_schedule:
  fixes N :: "64 word"
  assumes "0 < sint N" "sint N \<le> 1073741823"
  shows "\<exists>c'. Start (replicate (2 * nat (sint N)) failing_round)
                 (NewWebSocketClient (retry_config N) sid) = Some c'
            \<and> retry_waits (trace c')
                = replicate (nat (sint N)) 0 @ replicate (nat (sint N) - 1) (3 * Second)"
proof -
  let ?c0 = "NewWebSocketClient (retry_config N) sid"
  let ?m = "2 * nat (sint N)"
  have m: "int 0 + int ?m = 2 * sint N" "0 < ?m"
    using assms by simp_all
  have "\<exists>c'. Start (replicate ?m failing_round) ?c0 = Some c'
            \<and> cancelled c' \<and> State c' = StateDisconnected
            \<and> sint (RetryCount c') = 2 * sint N
            \<and> trace c' = trace ?c0 @ retry_events (sint N) (retryDelay (errorRecovery ?c0))
                                     (RetryDelay (config ?c0)) 0 ?m
            \<and> (\<forall>code. map_get (ErrorsByCode (Errors (Stats c'))) code
                  = map_get (ErrorsByCode (Errors (Stats ?c0))) code
                    + (if code = ErrCodeConnectionTimeout then of_nat ?m else 0))"
    by (rule failing_run [OF assms _ _ _ _ _ m])
      (simp_all add: new_client_simps retry_config_simps)
  then obtain c' where run: "Start (replicate ?m failing_round) ?c0 = Some c'"
    and tr: "trace c' = trace ?c0 @ retry_events (sint N) (retryDelay (errorRecovery ?c0))
                                     (RetryDelay (config ?c0)) 0 ?m"
    by (elim exE conjE)
  have "min (nat (sint N) - 1) (?m - 1) = nat (sint N) - 1"
    by linarith
  then have "retry_waits (trace c')
      = replicate (nat (sint N)) 0 @ replicate (nat (sint N) - 1) (3 * Second)"
    using tr retry_waits_retry_events [OF m, of "retryDelay (errorRecovery ?c0)" "RetryDelay (config ?c0)"]
    by (simp add: new_client_simps retry_config_simps retry_waits_append)
  then show ?thesis
    using run by blast
qed

lemma give_up_at_limit:
  assumes "env_dial ev = Inl err"
    and "0 < sint (MaxRetries (config c))" and "sint (MaxRetries (config c)) \<le> 1073741823"
    and "2 * sint (MaxRetries (config c)) \<le> sint (RetryCount c) + 1"
    and "sint (RetryCount c) < MaxInt32"
  shows "attemptConnection ev c = (False, (snd (Connect ev c))\<lparr>RetryCount := RetryCount c + 1\<rparr>)"
proof -
  let ?c2 = "(snd (Connect ev c))\<lparr>RetryCount := RetryCount c + 1\<rparr>"
  have count: "sint (RetryCount ?c2) = sint (RetryCount c) + 1"
    using sint_Suc32 [OF assms(5)] by simp
  have cfg: "config ?c2 = config c"
    by (simp add: Connect_fails_frame [OF assms(1)])
  have "shouldStopRetrying ?c2"
    using assms(2-4) count cfg by (simp add: shouldStopRetrying_iff)
  then show ?thesis
    by (simp add: attemptConnection_fails [OF assms(1)] Let_def)
qed

lemma exhausted_client_simps:
  "config (exhausted_client k) = retry_config 2"
  "RetryCount (exhausted_client k) = k"
  "ErrorsByCode (Errors (Stats (exhausted_client k))) = Map.empty"
  by (simp_all add: exhausted_client_def new_client_simps NewWebSocketClient_def)

text \<open>
  C1. With \<open>max_retries = 2\<close> and a slow retry delay of 3 s, against a connector that always
  fails, the supervisor dials four times and gives up; the waits of the retry policy
  before the second, third and fourth dial are 0, 0 and 3 s. So three dials follow no
  delay of the policy and one follows the delay, where the claim has two and two.
  (Each failed dial is also followed by the recovery strategy's own sleep.)
\<close>

theorem C1_retry_schedule_scenario:
  "case Start (replicate 4 failing_round) (NewWebSocketClient (retry_config 2) ''session-1'') of
     Some c \<Rightarrow>
       trace c = [Dialed, Slept Recovery (3 * Second), Slept RetryWait 0,
                  Dialed, Slept Recovery (3 * Second), Slept RetryWait 0,
                  Dialed, Slept Recovery (3 * Second), Slept RetryWait (3 * Second),
                  Dialed, Slept Recovery (3 * Second)]
       \<and> retry_waits (trace c) = [0, 0, 3 * Second]
       \<and> cancelled c
   | None \<Rightarrow> False"
proof -
  let ?c0 = "NewWebSocketClient (retry_config 2) ''session-1''"
  have "\<exists>c'. Start (replicate 4 failing_round) ?c0 = Some c'
            \<and> cancelled c' \<and> State c' = StateDisconnected
            \<and> sint (RetryCount c') = 2 * sint (2 :: 64 word)
            \<and> trace c' = trace ?c0 @ retry_events (sint (2 :: 64 word)) (retryDelay (errorRecovery ?c0))
                                     (RetryDelay (config ?c0)) 0 4
            \<and> (\<forall>code. map_get (ErrorsByCode (Errors (Stats c'))) code
                  = map_get (ErrorsByCode (Errors (Stats ?c0))) code
                    + (if code = ErrCodeConnectionTimeout then of_nat 4 else 0))"
    by (rule failing_run) (simp_all add: new_client_simps retry_config_simps)
  then obtain c' where run: "Start (replicate 4 failing_round) ?c0 = Some c'"
    and c: "cancelled c'"
    and tr: "trace c' = trace ?c0 @ retry_events (sint (2 :: 64 word)) (retryDelay (errorRecovery ?c0))
                                     (RetryDelay (config ?c0)) 0 4"
    by (elim exE conjE)
  have "retry_events 2 (3 * Second) (3 * Second) 0 4
      = [Dialed, Slept Recovery (3 * Second), Slept RetryWait 0,
         Dialed, Slept Recovery (3 * Second), Slept RetryWait 0,
         Dialed, Slept Recovery (3 * Second), Slept RetryWait (3 * Second),
         Dialed, Slept Recovery (3 * Second)]"
    by (simp add: numeral_eq_Suc)
  then have "trace c' = [Dialed, Slept Recovery (3 * Second), Slept RetryWait 0,
         Dialed, Slept Recovery (3 * Second), Slept RetryWait 0,
         Dialed, Slept Recovery (3 * Second), Slept RetryWait (3 * Second),
         Dialed, Slept Recovery (3 * Second)]"
    using tr by (simp add: new_client_simps retry_config_simps NewDefaultErrorRecovery_def)
  then show ?thesis
    using run c by simp
qed


text \<open>
  C5, as stated, fails. In the specification's scenario (\<open>max_retries = 2\<close>, every dial
  times out) the supervisor gives up after four failed dials with four errors of code
  1002 in the error book and none of code 3001. A failed dial with the counter already
  at 4 gives up at 5 and records no error of code 3001 either.
\<close>

theorem C5_counterexample:
  "(case Start (replicate 4 failing_round) (NewWebSocketClient (retry_config 2) ''session-1'') of
      Some c \<Rightarrow>
        cancelled c \<and> sint (RetryCount c) = 4
        \<and> map_get (ErrorsByCode (Errors (Stats c))) ErrCodeConnectionTimeout = 4
        \<and> map_get (ErrorsByCode (Errors (Stats c))) ErrCodeMaxRetriesExceeded = 0
    | None \<Rightarrow> False)
   \<and> fst (attemptConnection failing_env (exhausted_client 4)) = False
   \<and> sint (RetryCount (snd (attemptConnection failing_env (exhausted_client 4)))) = 5
   \<and> map_get (ErrorsByCode (Errors (Stats (snd (attemptConnection failing_env (exhausted_client 4))))))
         ErrCodeMaxRetriesExceeded = 0"
proof -
  let ?c0 = "NewWebSocketClient (retry_config 2) ''session-1''"
  have "\<exists>c'. Start (replicate 4 failing_round) ?c0 = Some c'
            \<and> cancelled c' \<and> State c' = StateDisconnected
            \<and> sint (RetryCount c') = 2 * sint (2 :: 64 word)
            \<and> trace c' = trace ?c0 @ retry_events (sint (2 :: 64 word)) (retryDelay (errorRecovery ?c0))
                                     (RetryDelay (config ?c0)) 0 4
            \<and> (\<forall>code. map_get (ErrorsByCode (Errors (Stats c'))) code
                  = map_get (ErrorsByCode (Errors (Stats ?c0))) code
                    + (if code = ErrCodeConnectionTimeout then of_nat 4 else 0))"
    by (rule failing_run) (simp_all add: new_client_simps retry_config_simps)
  then obtain c' where run: "Start (replicate 4 failing_round) ?c0 = Some c'"
    and c: "cancelled c'" "sint (RetryCount c') = 2 * sint (2 :: 64 word)"
    and errs: "\<forall>code. map_get (ErrorsByCode (Errors (Stats c'))) code
                  = map_get (ErrorsByCode (Errors (Stats ?c0))) code
                    + (if code = ErrCodeConnectionTimeout then of_nat 4 else 0)"
    by (elim exE conjE)
  have first: "case Start (replicate 4 failing_round) ?c0 of
      Some c \<Rightarrow>
        cancelled c \<and> sint (RetryCount c) = 4
        \<and> map_get (ErrorsByCode (Errors (Stats c))) ErrCodeConnectionTimeout = 4
        \<and> map_get (ErrorsByCode (Errors (Stats c))) ErrCodeMaxRetriesExceeded = 0
    | None \<Rightarrow> False"
    using run c errs by (simp add: new_client_simps map_get_empty)
  have "attemptConnection failing_env (exhausted_client 4)
      = (False, (snd (Connect failing_env (exhausted_client 4)))\<lparr>RetryCount := 4 + 1\<rparr>)"
    using give_up_at_limit [of failing_env dial_timeout "exhausted_client 4"]
    by (simp add: failing_simps exhausted_client_simps retry_config_simps)
  then have second: "fst (attemptConnection failing_env (exhausted_client 4)) = False"
    "sint (RetryCount (snd (attemptConnection failing_env (exhausted_client 4)))) = 5"
    "map_get (ErrorsByCode (Errors (Stats (snd (attemptConnection failing_env (exhausted_client 4))))))
         ErrCodeMaxRetriesExceeded = 0"
    by (simp_all add: Connect_fails_frame [OF failing_simps(1)] recordError_Stats map_inc_get
        exhausted_client_simps map_get_empty failing_simps dial_timeout_class)
  from first second show ?thesis by blast
qed

text \<open>
  C5, amended. When a dial fails and the retry counter thereby reaches twice the limit
  \<open>N > 0\<close> or more, \<open>attemptConnection\<close> gives up and \<open>Start\<close> returns at that attempt.
  Giving up makes and records no error of its own: the statistics and the metrics are
  what recording the failed dial's own error leaves. So the total of errors grows by one,
  and the count of a code, in \<open>ErrorsByCode\<close> and in \<open>errors_by_code_total\<close>, grows by one
  for the code of the dial's error and stays as it was for every other code; the count
  of 3001 changes only when the dial's own error carries the code 3001. Nothing is done
  after the dial and its recovery.
\<close>

theorem C5_give_up_records_nothing:
  assumes "env_dial ev = Inl err"
    and "0 < sint (MaxRetries (config c))" and "sint (MaxRetries (config c)) \<le> 1073741823"
    and "2 * sint (MaxRetries (config c)) \<le> sint (RetryCount c) + 1"
    and "sint (RetryCount c) < MaxInt32"
  shows "fst (attemptConnection ev c) = False
       \<and> (\<not> cancelled c \<and> r_env r = ev \<longrightarrow>
            Start (r # rs) c = Some (cancel (snd (attemptConnection ev c))))
       \<and> Stats (snd (attemptConnection ev c)) = Stats (recordError ev (Some err) c)
       \<and> metrics (snd (attemptConnection ev c)) = metrics (recordError ev (Some err) c)
       \<and> TotalErrors (Errors (Stats (snd (attemptConnection ev c))))
           = TotalErrors (Errors (Stats c)) + 1
       \<and> (\<forall>code. map_get (ErrorsByCode (Errors (Stats (snd (attemptConnection ev c))))) code
             = map_get (ErrorsByCode (Errors (Stats c))) code
               + (if code = extractErrorCode (env_pool ev) (Some err) then 1 else 0))
       \<and> (\<forall>code. errors_by_code_total (snd (attemptConnection ev c)) code
             = errors_by_code_total c code
               + (if code = extractErrorCode (env_pool ev) (Some err) then 1 else 0))
       \<and> (extractErrorCode (env_pool ev) (Some err) \<noteq> ErrCodeMaxRetriesExceeded \<longrightarrow>
            map_get (ErrorsByCode (Errors (Stats (snd (attemptConnection ev c)))))
                ErrCodeMaxRetriesExceeded
              = map_get (ErrorsByCode (Errors (Stats c))) ErrCodeMaxRetriesExceeded
            \<and> errors_by_code_total (snd (attemptConnection ev c)) ErrCodeMaxRetriesExceeded
              = errors_by_code_total c ErrCodeMaxRetriesExceeded)
       \<and> trace (snd (attemptConnection ev c)) = trace (snd (Connect ev c))"
proof -
  let ?c' = "snd (attemptConnection ev c)"
  note gave_up = give_up_at_limit [OF assms]
  have stats: "Stats ?c' = Stats (recordError ev (Some err) c)"
    by (simp add: gave_up Connect_fails_frame [OF assms(1)])
  have metrics: "metrics ?c' = metrics (recordError ev (Some err) c)"
    by (simp add: gave_up Connect_fails_metrics [OF assms(1)])
  have by_code: "map_get (ErrorsByCode (Errors (Stats ?c'))) code
             = map_get (ErrorsByCode (Errors (Stats c))) code
               + (if code = extractErrorCode (env_pool ev) (Some err) then 1 else 0)" for code
    by (simp add: stats recordError_Stats map_inc_get)
  have total: "errors_by_code_total ?c' code
             = errors_by_code_total c code
               + (if code = extractErrorCode (env_pool ev) (Some err) then 1 else 0)" for code
    using errors_by_code_total_recordError [of ev "Some err" c code] metrics
    by (simp add: errors_by_code_total_def)
  have returns: "Start (r # rs) c = Some (cancel ?c')" if "\<not> cancelled c" "r_env r = ev"
    using that by (simp add: gave_up)
  have "fst (attemptConnection ev c) = False"
    by (simp add: gave_up)
  moreover have "TotalErrors (Errors (Stats ?c')) = TotalErrors (Errors (Stats c)) + 1"
    by (simp add: stats recordError_Stats)
  moreover have "trace ?c' = trace (snd (Connect ev c))"
    by (simp add: gave_up)
  ultimately show ?thesis
    using stats metrics by_code total returns by simp
qed

theorem C5_give_up_records_nothing_witness:
  "fst (attemptConnection failing_env (exhausted_client 3)) = False
   \<and> Start [failing_round] (exhausted_client 3)
       = Some (cancel (snd (attemptConnection failing_env (exhausted_client 3))))
   \<and> map_get (ErrorsByCode (Errors (Stats (snd (attemptConnection failing_env (exhausted_client 3))))))
        ErrCodeMaxRetriesExceeded = 0
   \<and> errors_by_code_total (snd (attemptConnection failing_env (exhausted_client 3)))
        ErrCodeMaxRetriesExceeded = 0
   \<and> map_get (ErrorsByCode (Errors (Stats (snd (attemptConnection failing_env (exhausted_client 3))))))
        ErrCodeConnectionTimeout = 1
   \<and> errors_by_code_total (snd (attemptConnection failing_env (exhausted_client 3)))
        ErrCodeConnectionTimeout = 1"
proof -
  have idle: "\<not> cancelled (exhausted_client 3)" "r_env failing_round = failing_env"
    by (simp_all add: exhausted_client_def NewWebSocketClient_def failing_simps)
  have before: "errors_by_code_total (exhausted_client 3) code = 0" for code
    by (simp add: errors_by_code_total_def exhausted_client_def NewWebSocketClient_def
        map_get_empty)
  have code: "extractErrorCode (env_pool failing_env) (Some dial_timeout) = ErrCodeConnectionTimeout"
    by (simp add: failing_simps dial_timeout_class)
  have th: "fst (attemptConnection failing_env (exhausted_client 3)) = False
       \<and> (\<not> cancelled (exhausted_client 3) \<and> r_env failing_round = failing_env \<longrightarrow>
            Start (failing_round # []) (exhausted_client 3)
              = Some (cancel (snd (attemptConnection failing_env (exhausted_client 3)))))
       \<and> Stats (snd (attemptConnection failing_env (exhausted_client 3)))
           = Stats (recordError failing_env (Some dial_timeout) (exhausted_client 3))
       \<and> metrics (snd (attemptConnection failing_env (exhausted_client 3)))
           = metrics (recordError failing_env (Some dial_timeout) (exhausted_client 3))
       \<and> TotalErrors (Errors (Stats (snd (attemptConnection failing_env (exhausted_client 3)))))
           = TotalErrors (Errors (Stats (exhausted_client 3))) + 1
       \<and> (\<forall>code. map_get (ErrorsByCode (Errors (Stats (snd (attemptConnection failing_env
                      (exhausted_client 3)))))) code
             = map_get (ErrorsByCode (Errors (Stats (exhausted_client 3)))) code
               + (if code = extractErrorCode (env_pool failing_env) (Some dial_timeout)
                  then 1 else 0))
       \<and> (\<forall>code. errors_by_code_total (snd (attemptConnection failing_env
                      (exhausted_client 3))) code
             = errors_by_code_total (exhausted_client 3) code
               + (if code = extractErrorCode (env_pool failing_env) (Some dial_timeout)
                  then 1 else 0))
       \<and> (extractErrorCode (env_pool failing_env) (Some dial_timeout)
              \<noteq> ErrCodeMaxRetriesExceeded \<longrightarrow>
            map_get (ErrorsByCode (Errors (Stats (snd (attemptConnection failing_env
                      (exhausted_client 3)))))) ErrCodeMaxRetriesExceeded
              = map_get (ErrorsByCode (Errors (Stats (exhausted_client 3)))) ErrCodeMaxRetriesExceeded
            \<and> errors_by_code_total (snd (attemptConnection failing_env (exhausted_client 3)))
                ErrCodeMaxRetriesExceeded
              = errors_by_code_total (exhausted_client 3) ErrCodeMaxRetriesExceeded)
       \<and> trace (snd (attemptConnection failing_env (exhausted_client 3)))
           = trace (snd (Connect failing_env (exhausted_client 3)))"
    by (rule C5_give_up_records_nothing)
      (simp_all add: failing_simps exhausted_client_simps retry_config_simps)
  from th have a: "fst (attemptConnection failing_env (exhausted_client 3)) = False"
    and b: "Start [failing_round] (exhausted_client 3)
       = Some (cancel (snd (attemptConnection failing_env (exhausted_client 3))))"
    and c: "\<forall>code. map_get (ErrorsByCode (Errors (Stats (snd (attemptConnection failing_env
                      (exhausted_client 3)))))) code
             = map_get (ErrorsByCode (Errors (Stats (exhausted_client 3)))) code
               + (if code = extractErrorCode (env_pool failing_env) (Some dial_timeout)
                  then 1 else 0)"
    and d: "\<forall>code. errors_by_code_total (snd (attemptConnection failing_env
                      (exhausted_client 3))) code
             = errors_by_code_total (exhausted_client 3) code
               + (if code = extractErrorCode (env_pool failing_env) (Some dial_timeout)
                  then 1 else 0)"
    using idle by blast+
  show ?thesis
    using a b c [rule_format, of ErrCodeMaxRetriesExceeded] c [rule_format, of ErrCodeConnectionTimeout]
      d [rule_format, of ErrCodeMaxRetriesExceeded] d [rule_format, of ErrCodeConnectionTimeout]
    by (simp add: code before exhausted_client_simps map_get_empty)
qed

subsection \<open>The writer gate\<close>

text \<open>The frames that \<open>SendMessage\<close> writes are written under \<open>writeMu\<close>.\<close>

lemma writes_of_SendMessage_guarded:
  "Write cn messageType' data' locks \<in> set (trace (snd (SendMessage ev messageType data c)))
     \<Longrightarrow> Write cn messageType' data' locks \<in> set (trace c) \<or> WriteMu \<in> locks"
  by (auto simp: SendMessage_def send_failure_def Let_def handleErrorWithRecovery_def
      getConnSafely_def run_recovery_def emit_def Recover_def retryOperation_def
      reconnectOperation_def resetOperation_def fallbackOperation_def select_timer_def
      split: prod.splits option.splits bool.splits if_splits RecoveryStrategy.splits)

text \<open>
  C6. \<open>Stop\<close> writes the close frame of a connected client while it holds \<open>mu\<close> and not
  \<open>writeMu\<close>: this write does not pass through the writer gate.
\<close>

theorem C6_stop_writes_outside_writer_gate:
  "conn c = Some cn \<and> WriteMu \<notin> held c \<longrightarrow>
     trace (Stop c) = trace c @ [Write cn CloseMessage close_frame (insert Mu (held c)), Closed cn]
     \<and> WriteMu \<notin> insert Mu (held c)"
  by (simp add: Stop_def Let_def)

theorem C6_stop_writes_outside_writer_gate_witness:
  "trace (Stop (connected_client echo_config)) = [Dialed, Write 1 CloseMessage close_frame {Mu}, Closed 1]
   \<and> WriteMu \<notin> {Mu}"
  using C6_stop_writes_outside_writer_gate [of "connected_client echo_config" 1]
  by (simp add: connected_client_simps)

section \<open>The counters never decrease\<close>

subsection \<open>Additions to a 64-bit counter that do not wrap\<close>















lemma grows_wrappers [simp]:
  "grows w c (Unlock l c1) = grows w c c1"
  "grows w c (Lock l c1) = grows w c c1"
  "grows w c (emit evs c1) = grows w c c1"
  "grows w c (setState s c1) = grows w c c1"
  "grows w c (cancel c1) = grows w c c1"
  "grows w c (run_recovery ev err c1) = grows w c c1"
  by (simp_all add: grows_def counters_def)
















subsection \<open>A send on a connected client that nothing refuses\<close>




subsection \<open>The claim\<close>





end
